theory Spec2Isabelle
  imports Main "HOL-Library.Multiset"
begin

section \<open>Data model (shared/schema.ts)\<close>

text \<open>
  The records follow the TypeScript types that the storage layer declares: a column that
  is \<open>notNull\<close> is a plain field, a nullable column is an \<open>option\<close> (\<open>None\<close> is
  \<open>null\<close>), \<open>number\<close> in an id position is \<open>int\<close>. A \<open>Date\<close> is its time value in
  milliseconds since the epoch, \<open>None\<close> being the Invalid Date (time value \<open>NaN\<close>).
  For every table there are three records: the selected row (\<open>$inferSelect\<close>), the insert
  payload (the row without \<open>id\<close>) and \<open>Partial<Row>\<close>, where every field may be absent
  (\<open>None\<close>) or present (\<open>Some v\<close>). Field names carry a prefix per record because the
  tables share names such as \<open>id\<close>, \<open>status\<close> and \<open>patientId\<close>.
\<close>

type_synonym date = "int option"

record User =
  u_id :: int
  u_username :: string
  u_password :: string
  u_email :: string
  u_fullName :: string
  u_role :: string
  u_specialization :: "string option"
  u_contactNumber :: "string option"
  u_address :: "string option"

record InsertUser =
  iu_username :: string
  iu_password :: string
  iu_email :: string
  iu_fullName :: string
  iu_role :: string
  iu_specialization :: "string option"
  iu_contactNumber :: "string option"
  iu_address :: "string option"

record Appointment =
  a_id :: int
  a_patientId :: int
  a_doctorId :: int
  a_appointmentDate :: date
  a_duration :: int
  a_status :: string
  a_type :: string
  a_notes :: "string option"

record InsertAppointment =
  ia_patientId :: int
  ia_doctorId :: int
  ia_appointmentDate :: date
  ia_duration :: int
  ia_status :: string
  ia_type :: string
  ia_notes :: "string option"

record PartialAppointment =
  pa_id :: "int option"
  pa_patientId :: "int option"
  pa_doctorId :: "int option"
  pa_appointmentDate :: "date option"
  pa_duration :: "int option"
  pa_status :: "string option"
  pa_type :: "string option"
  pa_notes :: "string option option"

record Bed =
  b_id :: int
  b_bedNumber :: string
  b_ward :: string
  b_status :: string
  b_patientId :: "int option"

record InsertBed =
  ib_bedNumber :: string
  ib_ward :: string
  ib_status :: string
  ib_patientId :: "int option"

record PartialBed =
  pb_id :: "int option"
  pb_bedNumber :: "string option"
  pb_ward :: "string option"
  pb_status :: "string option"
  pb_patientId :: "int option option"

record Prescription =
  p_id :: int
  p_patientId :: int
  p_doctorId :: int
  p_prescriptionDate :: date
  p_status :: string
  p_notes :: "string option"
  p_fileData :: "string option"
  p_fileName :: "string option"

record InsertPrescription =
  ip_patientId :: int
  ip_doctorId :: int
  ip_prescriptionDate :: date
  ip_status :: string
  ip_notes :: "string option"
  ip_fileData :: "string option"
  ip_fileName :: "string option"

record PartialPrescription =
  pp_id :: "int option"
  pp_patientId :: "int option"
  pp_doctorId :: "int option"
  pp_prescriptionDate :: "date option"
  pp_status :: "string option"
  pp_notes :: "string option option"
  pp_fileData :: "string option option"
  pp_fileName :: "string option option"

record DoctorSchedule =
  s_id :: int
  s_doctorId :: int
  s_day :: string
  s_startTime :: string
  s_endTime :: string
  s_activityType :: string

record InsertDoctorSchedule =
  is_doctorId :: int
  is_day :: string
  is_startTime :: string
  is_endTime :: string
  is_activityType :: string

record PartialDoctorSchedule =
  ps_id :: "int option"
  ps_doctorId :: "int option"
  ps_day :: "string option"
  ps_startTime :: "string option"
  ps_endTime :: "string option"
  ps_activityType :: "string option"

section \<open>The JavaScript \<open>Map\<close>\<close>

text \<open>
  A \<open>Map<number, T>\<close> iterates in insertion order, \<open>set\<close> on a key that is present
  replaces the value in place, \<open>set\<close> on a new key appends, \<open>delete\<close> removes the entry
  and tells whether there was one. It is an association list in insertion order.
\<close>

type_synonym 'v jsmap = "(int \<times> 'v) list"

fun Map_get :: "'v jsmap \<Rightarrow> int \<Rightarrow> 'v option" where
  "Map_get [] k = None"
| "Map_get ((k', v) # m) k = (if k' = k then Some v else Map_get m k)"

fun Map_set :: "'v jsmap \<Rightarrow> int \<Rightarrow> 'v \<Rightarrow> 'v jsmap" where
  "Map_set [] k v = [(k, v)]"
| "Map_set ((k', v') # m) k v = (if k' = k then (k, v) # m else (k', v') # Map_set m k v)"

definition Map_has :: "'v jsmap \<Rightarrow> int \<Rightarrow> bool" where
  "Map_has m k = (Map_get m k \<noteq> None)"

definition Map_delete :: "'v jsmap \<Rightarrow> int \<Rightarrow> bool \<times> 'v jsmap" where
  "Map_delete m k = (Map_has m k, filter (\<lambda>e. fst e \<noteq> k) m)"

definition Map_values :: "'v jsmap \<Rightarrow> 'v list" where
  "Map_values m = map snd m"

section \<open>The store (server/storage.ts, class MemStorage)\<close>

record MemStorage =
  users :: "User jsmap"
  appointments :: "Appointment jsmap"
  beds :: "Bed jsmap"
  prescriptions :: "Prescription jsmap"
  doctorSchedules :: "DoctorSchedule jsmap"
  userIdCounter :: int
  appointmentIdCounter :: int
  bedIdCounter :: int
  prescriptionIdCounter :: int
  scheduleIdCounter :: int

subsection \<open>Users\<close>

definition getUser :: "MemStorage \<Rightarrow> int \<Rightarrow> User option" where
  "getUser st k = Map_get (users st) k"

definition getUserByUsername :: "MemStorage \<Rightarrow> string \<Rightarrow> User option" where
  "getUserByUsername st username = find (\<lambda>user. u_username user = username) (Map_values (users st))"

definition getUsersByRole :: "MemStorage \<Rightarrow> string \<Rightarrow> User list" where
  "getUsersByRole st role = filter (\<lambda>user. u_role user = role) (Map_values (users st))"

definition createUser :: "MemStorage \<Rightarrow> InsertUser \<Rightarrow> User \<times> MemStorage" where
  "createUser st insertUser =
     (let k = userIdCounter st;
          user = \<lparr>u_id = k, u_username = iu_username insertUser,
                  u_password = iu_password insertUser, u_email = iu_email insertUser,
                  u_fullName = iu_fullName insertUser, u_role = iu_role insertUser,
                  u_specialization = iu_specialization insertUser,
                  u_contactNumber = iu_contactNumber insertUser,
                  u_address = iu_address insertUser\<rparr>
      in (user, st\<lparr>userIdCounter := k + 1, users := Map_set (users st) k user\<rparr>))"

subsection \<open>Appointments\<close>

text \<open>
  \<open>new Date(d)\<close> of a \<open>Date\<close> is a fresh object with the time value of \<open>d\<close>.
\<close>

definition new_Date :: "date \<Rightarrow> date" where
  "new_Date d = d"



definition getAppointment :: "MemStorage \<Rightarrow> int \<Rightarrow> Appointment option" where
  "getAppointment st k = Map_get (appointments st) k"

definition getAppointmentsByPatient :: "MemStorage \<Rightarrow> int \<Rightarrow> Appointment list" where
  "getAppointmentsByPatient st patientId =
     filter (\<lambda>appointment. a_patientId appointment = patientId) (Map_values (appointments st))"

definition getAppointmentsByDoctor :: "MemStorage \<Rightarrow> int \<Rightarrow> Appointment list" where
  "getAppointmentsByDoctor st doctorId =
     filter (\<lambda>appointment. a_doctorId appointment = doctorId) (Map_values (appointments st))"

definition createAppointment :: "MemStorage \<Rightarrow> InsertAppointment \<Rightarrow> Appointment \<times> MemStorage" where
  "createAppointment st insertAppointment =
     (let k = appointmentIdCounter st;
          appointment = \<lparr>a_id = k, a_patientId = ia_patientId insertAppointment,
                         a_doctorId = ia_doctorId insertAppointment,
                         a_appointmentDate = new_Date (ia_appointmentDate insertAppointment),
                         a_duration = ia_duration insertAppointment,
                         a_status = ia_status insertAppointment,
                         a_type = ia_type insertAppointment,
                         a_notes = ia_notes insertAppointment\<rparr>
      in (appointment,
          st\<lparr>appointmentIdCounter := k + 1,
             appointments := Map_set (appointments st) k appointment\<rparr>))"

text \<open>
  The object spread \<open>{ ...row, ...update }\<close>: a field that the update has overrides the
  field of the row, every other field is the row's. \<open>spread\<close> is the spread of one field.
\<close>

definition spread :: "'a \<Rightarrow> 'a option \<Rightarrow> 'a" where
  "spread old upd = (case upd of None \<Rightarrow> old | Some v \<Rightarrow> v)"

definition spreadAppointment :: "Appointment \<Rightarrow> PartialAppointment \<Rightarrow> Appointment" where
  "spreadAppointment appointment appointmentUpdate =
     \<lparr>a_id = spread (a_id appointment) (pa_id appointmentUpdate),
      a_patientId = spread (a_patientId appointment) (pa_patientId appointmentUpdate),
      a_doctorId = spread (a_doctorId appointment) (pa_doctorId appointmentUpdate),
      a_appointmentDate = spread (a_appointmentDate appointment) (pa_appointmentDate appointmentUpdate),
      a_duration = spread (a_duration appointment) (pa_duration appointmentUpdate),
      a_status = spread (a_status appointment) (pa_status appointmentUpdate),
      a_type = spread (a_type appointment) (pa_type appointmentUpdate),
      a_notes = spread (a_notes appointment) (pa_notes appointmentUpdate)\<rparr>"

definition updateAppointment ::
  "MemStorage \<Rightarrow> int \<Rightarrow> PartialAppointment \<Rightarrow> Appointment option \<times> MemStorage" where
  "updateAppointment st k appointmentUpdate =
     (case Map_get (appointments st) k of
        None \<Rightarrow> (None, st)
      | Some appointment \<Rightarrow>
          (let updatedAppointment = spreadAppointment appointment appointmentUpdate
           in (Some updatedAppointment,
               st\<lparr>appointments := Map_set (appointments st) k updatedAppointment\<rparr>)))"

definition deleteAppointment :: "MemStorage \<Rightarrow> int \<Rightarrow> bool \<times> MemStorage" where
  "deleteAppointment st k =
     (let (found, m) = Map_delete (appointments st) k in (found, st\<lparr>appointments := m\<rparr>))"

subsection \<open>Beds\<close>

definition getBed :: "MemStorage \<Rightarrow> int \<Rightarrow> Bed option" where
  "getBed st k = Map_get (beds st) k"

definition getBedByNumber :: "MemStorage \<Rightarrow> string \<Rightarrow> Bed option" where
  "getBedByNumber st bedNumber = find (\<lambda>bed. b_bedNumber bed = bedNumber) (Map_values (beds st))"

definition getBedsByWard :: "MemStorage \<Rightarrow> string \<Rightarrow> Bed list" where
  "getBedsByWard st ward = filter (\<lambda>bed. b_ward bed = ward) (Map_values (beds st))"

definition getBedsByStatus :: "MemStorage \<Rightarrow> string \<Rightarrow> Bed list" where
  "getBedsByStatus st status = filter (\<lambda>bed. b_status bed = status) (Map_values (beds st))"

definition getAllBeds :: "MemStorage \<Rightarrow> Bed list" where
  "getAllBeds st = Map_values (beds st)"

definition createBed :: "MemStorage \<Rightarrow> InsertBed \<Rightarrow> Bed \<times> MemStorage" where
  "createBed st insertBed =
     (let k = bedIdCounter st;
          bed = \<lparr>b_id = k, b_bedNumber = ib_bedNumber insertBed, b_ward = ib_ward insertBed,
                 b_status = ib_status insertBed, b_patientId = ib_patientId insertBed\<rparr>
      in (bed, st\<lparr>bedIdCounter := k + 1, beds := Map_set (beds st) k bed\<rparr>))"

definition spreadBed :: "Bed \<Rightarrow> PartialBed \<Rightarrow> Bed" where
  "spreadBed bed bedUpdate =
     \<lparr>b_id = spread (b_id bed) (pb_id bedUpdate),
      b_bedNumber = spread (b_bedNumber bed) (pb_bedNumber bedUpdate),
      b_ward = spread (b_ward bed) (pb_ward bedUpdate),
      b_status = spread (b_status bed) (pb_status bedUpdate),
      b_patientId = spread (b_patientId bed) (pb_patientId bedUpdate)\<rparr>"

definition updateBed :: "MemStorage \<Rightarrow> int \<Rightarrow> PartialBed \<Rightarrow> Bed option \<times> MemStorage" where
  "updateBed st k bedUpdate =
     (case Map_get (beds st) k of
        None \<Rightarrow> (None, st)
      | Some bed \<Rightarrow>
          (let updatedBed = spreadBed bed bedUpdate
           in (Some updatedBed, st\<lparr>beds := Map_set (beds st) k updatedBed\<rparr>)))"

subsection \<open>Prescriptions\<close>

definition getPrescription :: "MemStorage \<Rightarrow> int \<Rightarrow> Prescription option" where
  "getPrescription st k = Map_get (prescriptions st) k"

definition getPrescriptionsByPatient :: "MemStorage \<Rightarrow> int \<Rightarrow> Prescription list" where
  "getPrescriptionsByPatient st patientId =
     filter (\<lambda>prescription. p_patientId prescription = patientId) (Map_values (prescriptions st))"

definition getPrescriptionsByDoctor :: "MemStorage \<Rightarrow> int \<Rightarrow> Prescription list" where
  "getPrescriptionsByDoctor st doctorId =
     filter (\<lambda>prescription. p_doctorId prescription = doctorId) (Map_values (prescriptions st))"

definition createPrescription :: "MemStorage \<Rightarrow> InsertPrescription \<Rightarrow> Prescription \<times> MemStorage" where
  "createPrescription st insertPrescription =
     (let k = prescriptionIdCounter st;
          prescription = \<lparr>p_id = k, p_patientId = ip_patientId insertPrescription,
                          p_doctorId = ip_doctorId insertPrescription,
                          p_prescriptionDate = new_Date (ip_prescriptionDate insertPrescription),
                          p_status = ip_status insertPrescription,
                          p_notes = ip_notes insertPrescription,
                          p_fileData = ip_fileData insertPrescription,
                          p_fileName = ip_fileName insertPrescription\<rparr>
      in (prescription,
          st\<lparr>prescriptionIdCounter := k + 1,
             prescriptions := Map_set (prescriptions st) k prescription\<rparr>))"

definition spreadPrescription :: "Prescription \<Rightarrow> PartialPrescription \<Rightarrow> Prescription" where
  "spreadPrescription prescription prescriptionUpdate =
     \<lparr>p_id = spread (p_id prescription) (pp_id prescriptionUpdate),
      p_patientId = spread (p_patientId prescription) (pp_patientId prescriptionUpdate),
      p_doctorId = spread (p_doctorId prescription) (pp_doctorId prescriptionUpdate),
      p_prescriptionDate =
        spread (p_prescriptionDate prescription) (pp_prescriptionDate prescriptionUpdate),
      p_status = spread (p_status prescription) (pp_status prescriptionUpdate),
      p_notes = spread (p_notes prescription) (pp_notes prescriptionUpdate),
      p_fileData = spread (p_fileData prescription) (pp_fileData prescriptionUpdate),
      p_fileName = spread (p_fileName prescription) (pp_fileName prescriptionUpdate)\<rparr>"

definition updatePrescription ::
  "MemStorage \<Rightarrow> int \<Rightarrow> PartialPrescription \<Rightarrow> Prescription option \<times> MemStorage" where
  "updatePrescription st k prescriptionUpdate =
     (case Map_get (prescriptions st) k of
        None \<Rightarrow> (None, st)
      | Some prescription \<Rightarrow>
          (let updatedPrescription = spreadPrescription prescription prescriptionUpdate
           in (Some updatedPrescription,
               st\<lparr>prescriptions := Map_set (prescriptions st) k updatedPrescription\<rparr>)))"

subsection \<open>Doctor schedules\<close>

definition getDoctorSchedule :: "MemStorage \<Rightarrow> int \<Rightarrow> DoctorSchedule option" where
  "getDoctorSchedule st k = Map_get (doctorSchedules st) k"

definition getDoctorSchedulesByDoctor :: "MemStorage \<Rightarrow> int \<Rightarrow> DoctorSchedule list" where
  "getDoctorSchedulesByDoctor st doctorId =
     filter (\<lambda>schedule. s_doctorId schedule = doctorId) (Map_values (doctorSchedules st))"

definition createDoctorSchedule ::
  "MemStorage \<Rightarrow> InsertDoctorSchedule \<Rightarrow> DoctorSchedule \<times> MemStorage" where
  "createDoctorSchedule st insertSchedule =
     (let k = scheduleIdCounter st;
          schedule = \<lparr>s_id = k, s_doctorId = is_doctorId insertSchedule,
                      s_day = is_day insertSchedule, s_startTime = is_startTime insertSchedule,
                      s_endTime = is_endTime insertSchedule,
                      s_activityType = is_activityType insertSchedule\<rparr>
      in (schedule,
          st\<lparr>scheduleIdCounter := k + 1,
             doctorSchedules := Map_set (doctorSchedules st) k schedule\<rparr>))"

definition spreadDoctorSchedule :: "DoctorSchedule \<Rightarrow> PartialDoctorSchedule \<Rightarrow> DoctorSchedule" where
  "spreadDoctorSchedule schedule scheduleUpdate =
     \<lparr>s_id = spread (s_id schedule) (ps_id scheduleUpdate),
      s_doctorId = spread (s_doctorId schedule) (ps_doctorId scheduleUpdate),
      s_day = spread (s_day schedule) (ps_day scheduleUpdate),
      s_startTime = spread (s_startTime schedule) (ps_startTime scheduleUpdate),
      s_endTime = spread (s_endTime schedule) (ps_endTime scheduleUpdate),
      s_activityType = spread (s_activityType schedule) (ps_activityType scheduleUpdate)\<rparr>"

definition updateDoctorSchedule ::
  "MemStorage \<Rightarrow> int \<Rightarrow> PartialDoctorSchedule \<Rightarrow> DoctorSchedule option \<times> MemStorage" where
  "updateDoctorSchedule st k scheduleUpdate =
     (case Map_get (doctorSchedules st) k of
        None \<Rightarrow> (None, st)
      | Some schedule \<Rightarrow>
          (let updatedSchedule = spreadDoctorSchedule schedule scheduleUpdate
           in (Some updatedSchedule,
               st\<lparr>doctorSchedules := Map_set (doctorSchedules st) k updatedSchedule\<rparr>)))"

definition deleteDoctorSchedule :: "MemStorage \<Rightarrow> int \<Rightarrow> bool \<times> MemStorage" where
  "deleteDoctorSchedule st k =
     (let (found, m) = Map_delete (doctorSchedules st) k in (found, st\<lparr>doctorSchedules := m\<rparr>))"

subsection \<open>Construction and seed data\<close>

text \<open>
  The string methods that \<open>initializeData\<close> calls, on the characters it calls them with:
  \<open>charAt\<close> is the empty string out of range, \<open>toUpperCase\<close> maps the ASCII lower-case
  letters and leaves every other \<open>char\<close> as it is, \<open>toString\<close> of a natural number is its
  decimal numeral, \<open>padStart\<close> with a one-character pad string fills up on the left.
\<close>

definition charAt :: "string \<Rightarrow> nat \<Rightarrow> string" where
  "charAt s i = (if i < length s then [s ! i] else [])"

definition toUpperCase_char :: "char \<Rightarrow> char" where
  "toUpperCase_char c =
     (case map_of (zip ''abcdefghijklmnopqrstuvwxyz'' ''ABCDEFGHIJKLMNOPQRSTUVWXYZ'') c of
        None \<Rightarrow> c | Some u \<Rightarrow> u)"

definition toUpperCase :: "string \<Rightarrow> string" where
  "toUpperCase s = map toUpperCase_char s"

fun toString :: "nat \<Rightarrow> string" where
  "toString n =
     (if n < 10 then [''0123456789'' ! n]
      else toString (n div 10) @ [''0123456789'' ! (n mod 10)])"

declare toString.simps [simp del]

definition padStart :: "string \<Rightarrow> nat \<Rightarrow> char \<Rightarrow> string" where
  "padStart s targetLength c = replicate (targetLength - length s) c @ s"

definition wards :: "string list" where
  "wards = [''general'', ''icu'', ''pediatric'', ''maternity'']"

text \<open>
  The loop \<open>for (let i = 1; i <= 20; i++)\<close> of \<open>initializeData\<close>, from the value of
  \<open>i\<close> on. The index \<open>i % wards.length\<close> is always below the length of \<open>wards\<close>.
\<close>

function initializeData_loop :: "nat \<Rightarrow> MemStorage \<Rightarrow> MemStorage" where
  "initializeData_loop i st =
     (if i \<le> 20 then
        (let ward = wards ! (i mod length wards);
             wardPrefix = toUpperCase (charAt ward 0)
         in initializeData_loop (i + 1)
              (snd (createBed st
                 \<lparr>ib_bedNumber = wardPrefix @ padStart (toString i) 2 CHR ''0'',
                  ib_ward = ward, ib_status = ''available'', ib_patientId = None\<rparr>)))
      else st)"
  by pat_completeness auto
termination
  by (relation "measure (\<lambda>(i, st). 21 - i)") auto

declare initializeData_loop.simps [simp del]

definition initializeData :: "MemStorage \<Rightarrow> MemStorage" where
  "initializeData st = initializeData_loop 1 st"

definition new_MemStorage :: MemStorage where
  "new_MemStorage =
     initializeData
       \<lparr>users = [], appointments = [], beds = [], prescriptions = [], doctorSchedules = [],
        userIdCounter = 1, appointmentIdCounter = 1, bedIdCounter = 1,
        prescriptionIdCounter = 1, scheduleIdCounter = 1\<rparr>"

subsection \<open>Appointments of one calendar day\<close>












section \<open>The routes (server/routes.ts)\<close>

text \<open>
  A response is \<open>res.status(n).json(value)\<close> (\<open>res.json(value)\<close> has status 200),
  \<open>res.status(n).json({ message })\<close> or \<open>res.status(n).end()\<close>. A handler returns
  its response and the store it leaves. \<open>req.user\<close> is \<open>None\<close> when
  \<open>req.isAuthenticated()\<close> is false. A numeric path parameter is given as the integer
  that \<open>parseInt\<close> returns; a parameter that parses to \<open>NaN\<close> is a key of no
  collection. The body of a \<open>PUT\<close> request is handed to the update method of the store
  as it is, without validation; it is given at the type that the method declares for it,
  \<open>Partial<Row>\<close>, which has the optional field \<open>id\<close>.
\<close>

datatype 'a response = Json nat 'a | Message nat string | End nat

definition ensureAuthenticated ::
  "User option \<Rightarrow> MemStorage \<Rightarrow> (User \<Rightarrow> 'a response \<times> MemStorage) \<Rightarrow> 'a response \<times> MemStorage" where
  "ensureAuthenticated req_user st next =
     (case req_user of
        Some user \<Rightarrow> next user
      | None \<Rightarrow> (Message 401 ''Unauthorized'', st))"

definition checkRole ::
  "string list \<Rightarrow> User option \<Rightarrow> MemStorage \<Rightarrow> (User \<Rightarrow> 'a response \<times> MemStorage)
     \<Rightarrow> 'a response \<times> MemStorage" where
  "checkRole roles req_user st next =
     (case req_user of
        Some user \<Rightarrow>
          if u_role user \<in> set roles then next user else (Message 403 ''Forbidden'', st)
      | None \<Rightarrow> (Message 403 ''Forbidden'', st))"

text \<open>
  \<open>schema.parse\<close> returns the parsed data, throws a \<open>ZodError\<close> (whose message
  \<open>fromZodError\<close> renders) or throws something else. \<open>handleValidation\<close> turns the
  \<open>ZodError\<close> into \<open>{ status: 400, message }\<close>; the \<open>catch\<close> block of a handler
  answers an error that has a (truthy) \<open>status\<close> with that status, any other error with 500.
\<close>

datatype 'a parse_result = Parsed 'a | ZodError string | OtherError

datatype thrown = StatusError nat string | Error

definition handleValidation :: "('b \<Rightarrow> 'a parse_result) \<Rightarrow> 'b \<Rightarrow> thrown + 'a" where
  "handleValidation schema data =
     (case schema data of
        Parsed x \<Rightarrow> Inr x
      | ZodError message \<Rightarrow> Inl (StatusError 400 message)
      | OtherError \<Rightarrow> Inl Error)"

definition catch_error :: "thrown \<Rightarrow> 'a response" where
  "catch_error error =
     (case error of
        StatusError status message \<Rightarrow>
          if status \<noteq> 0 then Message status message else Message 500 ''Internal server error''
      | Error \<Rightarrow> Message 500 ''Internal server error'')"

subsection \<open>User routes\<close>

text \<open>
  \<open>({ password, ...rest }) => rest\<close>: the rest of a user is the record of its fields
  other than \<open>password\<close>.
\<close>

record UserRest =
  r_id :: int
  r_username :: string
  r_email :: string
  r_fullName :: string
  r_role :: string
  r_specialization :: "string option"
  r_contactNumber :: "string option"
  r_address :: "string option"

definition rest_without_password :: "User \<Rightarrow> UserRest" where
  "rest_without_password user =
     \<lparr>r_id = u_id user, r_username = u_username user, r_email = u_email user,
      r_fullName = u_fullName user, r_role = u_role user,
      r_specialization = u_specialization user, r_contactNumber = u_contactNumber user,
      r_address = u_address user\<rparr>"

definition get_users_doctors :: "MemStorage \<Rightarrow> User option \<Rightarrow> UserRest list response \<times> MemStorage" where
  "get_users_doctors st req_user =
     ensureAuthenticated req_user st (\<lambda>user.
       let doctors = getUsersByRole st ''doctor'';
           doctorsWithoutPasswords = map rest_without_password doctors
       in (Json 200 doctorsWithoutPasswords, st))"

definition get_users_patients :: "MemStorage \<Rightarrow> User option \<Rightarrow> UserRest list response \<times> MemStorage" where
  "get_users_patients st req_user =
     ensureAuthenticated req_user st (\<lambda>user.
       checkRole [''doctor'', ''nurse''] req_user st (\<lambda>user.
         let patients = getUsersByRole st ''patient'';
             patientsWithoutPasswords = map rest_without_password patients
         in (Json 200 patientsWithoutPasswords, st)))"

subsection \<open>Appointment routes\<close>

text \<open>
  The loop \<open>for (const doctorId of doctorIds) { acc.push(...byDoctor(doctorId)) }\<close> of
  the three list routes, with the array built so far as accumulator.
\<close>

fun push_each :: "(int \<Rightarrow> 'a list) \<Rightarrow> int list \<Rightarrow> 'a list \<Rightarrow> 'a list" where
  "push_each byDoctor [] acc = acc"
| "push_each byDoctor (doctorId # doctorIds) acc =
     push_each byDoctor doctorIds (acc @ byDoctor doctorId)"

definition get_appointments :: "MemStorage \<Rightarrow> User option \<Rightarrow> Appointment list response \<times> MemStorage" where
  "get_appointments st req_user =
     ensureAuthenticated req_user st (\<lambda>user.
       if u_role user = ''patient'' then
         (Json 200 (getAppointmentsByPatient st (u_id user)), st)
       else if u_role user = ''doctor'' then
         (Json 200 (getAppointmentsByDoctor st (u_id user)), st)
       else
         (let allDoctors = getUsersByRole st ''doctor'';
              doctorIds = map u_id allDoctors
          in (Json 200 (push_each (getAppointmentsByDoctor st) doctorIds []), st)))"


definition post_appointments ::
  "('b \<Rightarrow> InsertAppointment parse_result) \<Rightarrow> MemStorage \<Rightarrow> User option \<Rightarrow> 'b
     \<Rightarrow> Appointment response \<times> MemStorage" where
  "post_appointments insertAppointmentSchema st req_user body =
     ensureAuthenticated req_user st (\<lambda>user.
       case handleValidation insertAppointmentSchema body of
         Inl error \<Rightarrow> (catch_error error, st)
       | Inr appointmentData \<Rightarrow>
           if u_role user = ''patient'' \<and> ia_patientId appointmentData \<noteq> u_id user then
             (Message 403 ''You can only create appointments for yourself'', st)
           else
             (let (appointment, st') = createAppointment st appointmentData
              in (Json 201 appointment, st')))"

definition put_appointments ::
  "MemStorage \<Rightarrow> User option \<Rightarrow> int \<Rightarrow> PartialAppointment
     \<Rightarrow> Appointment option response \<times> MemStorage" where
  "put_appointments st req_user k body =
     ensureAuthenticated req_user st (\<lambda>user.
       case getAppointment st k of
         None \<Rightarrow> (Message 404 ''Appointment not found'', st)
       | Some appointment \<Rightarrow>
           if u_role user = ''patient'' \<and> a_patientId appointment \<noteq> u_id user then
             (Message 403 ''You can only modify your own appointments'', st)
           else
             (let (updatedAppointment, st') = updateAppointment st k body
              in (Json 200 updatedAppointment, st')))"

subsection \<open>Bed routes\<close>

definition get_beds :: "MemStorage \<Rightarrow> User option \<Rightarrow> Bed list response \<times> MemStorage" where
  "get_beds st req_user =
     ensureAuthenticated req_user st (\<lambda>user. (Json 200 (getAllBeds st), st))"

definition put_beds ::
  "MemStorage \<Rightarrow> User option \<Rightarrow> int \<Rightarrow> PartialBed \<Rightarrow> Bed option response \<times> MemStorage" where
  "put_beds st req_user k body =
     ensureAuthenticated req_user st (\<lambda>user.
       checkRole [''doctor'', ''nurse''] req_user st (\<lambda>user.
         case getBed st k of
           None \<Rightarrow> (Message 404 ''Bed not found'', st)
         | Some bed \<Rightarrow>
             (let (updatedBed, st') = updateBed st k body
              in (Json 200 updatedBed, st'))))"

subsection \<open>Prescription routes\<close>

definition get_prescriptions ::
  "MemStorage \<Rightarrow> User option \<Rightarrow> Prescription list response \<times> MemStorage" where
  "get_prescriptions st req_user =
     ensureAuthenticated req_user st (\<lambda>user.
       if u_role user = ''patient'' then
         (Json 200 (getPrescriptionsByPatient st (u_id user)), st)
       else if u_role user = ''doctor'' then
         (Json 200 (getPrescriptionsByDoctor st (u_id user)), st)
       else
         (let allDoctors = getUsersByRole st ''doctor'';
              doctorIds = map u_id allDoctors
          in (Json 200 (push_each (getPrescriptionsByDoctor st) doctorIds []), st)))"

definition put_prescriptions ::
  "MemStorage \<Rightarrow> User option \<Rightarrow> int \<Rightarrow> PartialPrescription
     \<Rightarrow> Prescription option response \<times> MemStorage" where
  "put_prescriptions st req_user k body =
     ensureAuthenticated req_user st (\<lambda>user.
       checkRole [''doctor''] req_user st (\<lambda>user.
         case getPrescription st k of
           None \<Rightarrow> (Message 404 ''Prescription not found'', st)
         | Some prescription \<Rightarrow>
             if p_doctorId prescription \<noteq> u_id user then
               (Message 403 ''You can only modify your own prescriptions'', st)
             else
               (let (updatedPrescription, st') = updatePrescription st k body
                in (Json 200 updatedPrescription, st'))))"

subsection \<open>Doctor schedule routes\<close>

definition get_schedules ::
  "MemStorage \<Rightarrow> User option \<Rightarrow> DoctorSchedule list response \<times> MemStorage" where
  "get_schedules st req_user =
     ensureAuthenticated req_user st (\<lambda>user.
       if u_role user = ''doctor'' then
         (Json 200 (getDoctorSchedulesByDoctor st (u_id user)), st)
       else
         (let doctors = getUsersByRole st ''doctor''
          in (Json 200 (push_each (getDoctorSchedulesByDoctor st) (map u_id doctors) []), st)))"

section \<open>The states of the store\<close>

text \<open>
  The store is private to \<open>MemStorage\<close>: it is built by the constructor and changes only
  through the mutating methods of \<open>IStorage\<close>. A state of the store is a state reached
  from the constructor by a sequence of these calls, with any arguments.
\<close>

datatype storage_call =
    CreateUser InsertUser
  | CreateAppointment InsertAppointment
  | UpdateAppointment int PartialAppointment
  | DeleteAppointment int
  | CreateBed InsertBed
  | UpdateBed int PartialBed
  | CreatePrescription InsertPrescription
  | UpdatePrescription int PartialPrescription
  | CreateDoctorSchedule InsertDoctorSchedule
  | UpdateDoctorSchedule int PartialDoctorSchedule
  | DeleteDoctorSchedule int

fun call :: "MemStorage \<Rightarrow> storage_call \<Rightarrow> MemStorage" where
  "call st (CreateUser x) = snd (createUser st x)"
| "call st (CreateAppointment x) = snd (createAppointment st x)"
| "call st (UpdateAppointment k x) = snd (updateAppointment st k x)"
| "call st (DeleteAppointment k) = snd (deleteAppointment st k)"
| "call st (CreateBed x) = snd (createBed st x)"
| "call st (UpdateBed k x) = snd (updateBed st k x)"
| "call st (CreatePrescription x) = snd (createPrescription st x)"
| "call st (UpdatePrescription k x) = snd (updatePrescription st k x)"
| "call st (CreateDoctorSchedule x) = snd (createDoctorSchedule st x)"
| "call st (UpdateDoctorSchedule k x) = snd (updateDoctorSchedule st k x)"
| "call st (DeleteDoctorSchedule k) = snd (deleteDoctorSchedule st k)"

inductive reachable :: "MemStorage \<Rightarrow> bool" where
  constructed: "reachable new_MemStorage"
| called: "reachable st \<Longrightarrow> reachable (call st c)"

text \<open>
  What the counter and the way \<open>createUser\<close> assigns ids maintain in the users
  collection: every user is stored under its own id, below the counter, and no key occurs
  twice.
\<close>

definition users_consistent :: "MemStorage \<Rightarrow> bool" where
  "users_consistent st \<longleftrightarrow>
     list_all (\<lambda>e. u_id (snd e) = fst e \<and> fst e < userIdCounter st) (users st) \<and>
     distinct (map fst (users st))"

section \<open>Notions used to state the properties\<close>

definition status_of :: "'a response \<Rightarrow> nat" where
  "status_of r = (case r of Json n _ \<Rightarrow> n | Message n _ \<Rightarrow> n | End n \<Rightarrow> n)"

text \<open>
  The store with every stored password replaced, by a function of the user record.
\<close>

definition replace_passwords :: "(User \<Rightarrow> string) \<Rightarrow> MemStorage \<Rightarrow> MemStorage" where
  "replace_passwords f st =
     st\<lparr>users := map (\<lambda>e. (fst e, (snd e)\<lparr>u_password := f (snd e)\<rparr>)) (users st)\<rparr>"

text \<open>
  A field of the record that an update stores, in the words of the specification: if the
  field is present in the partial payload it has the payload's value, if it is absent it
  has the value of the record that was stored before.
\<close>

definition merged_field :: "'a \<Rightarrow> 'a option \<Rightarrow> 'a \<Rightarrow> bool" where
  "merged_field old payload new \<longleftrightarrow>
     (\<forall>v. payload = Some v \<longrightarrow> new = v) \<and> (payload = None \<longrightarrow> new = old)"

text \<open>
  A record \<open>new\<close> whose fields present in the partial payload have the payload's values
  and whose fields absent from it have the values of \<open>old\<close>, for each kind of record
  that has an update operation.
\<close>

definition merged_appointment :: "Appointment \<Rightarrow> PartialAppointment \<Rightarrow> Appointment \<Rightarrow> bool" where
  "merged_appointment old payload new \<longleftrightarrow>
     merged_field (a_id old) (pa_id payload) (a_id new) \<and>
     merged_field (a_patientId old) (pa_patientId payload) (a_patientId new) \<and>
     merged_field (a_doctorId old) (pa_doctorId payload) (a_doctorId new) \<and>
     merged_field (a_appointmentDate old) (pa_appointmentDate payload) (a_appointmentDate new) \<and>
     merged_field (a_duration old) (pa_duration payload) (a_duration new) \<and>
     merged_field (a_status old) (pa_status payload) (a_status new) \<and>
     merged_field (a_type old) (pa_type payload) (a_type new) \<and>
     merged_field (a_notes old) (pa_notes payload) (a_notes new)"

definition merged_bed :: "Bed \<Rightarrow> PartialBed \<Rightarrow> Bed \<Rightarrow> bool" where
  "merged_bed old payload new \<longleftrightarrow>
     merged_field (b_id old) (pb_id payload) (b_id new) \<and>
     merged_field (b_bedNumber old) (pb_bedNumber payload) (b_bedNumber new) \<and>
     merged_field (b_ward old) (pb_ward payload) (b_ward new) \<and>
     merged_field (b_status old) (pb_status payload) (b_status new) \<and>
     merged_field (b_patientId old) (pb_patientId payload) (b_patientId new)"

definition merged_prescription ::
  "Prescription \<Rightarrow> PartialPrescription \<Rightarrow> Prescription \<Rightarrow> bool" where
  "merged_prescription old payload new \<longleftrightarrow>
     merged_field (p_id old) (pp_id payload) (p_id new) \<and>
     merged_field (p_patientId old) (pp_patientId payload) (p_patientId new) \<and>
     merged_field (p_doctorId old) (pp_doctorId payload) (p_doctorId new) \<and>
     merged_field (p_prescriptionDate old) (pp_prescriptionDate payload) (p_prescriptionDate new) \<and>
     merged_field (p_status old) (pp_status payload) (p_status new) \<and>
     merged_field (p_notes old) (pp_notes payload) (p_notes new) \<and>
     merged_field (p_fileData old) (pp_fileData payload) (p_fileData new) \<and>
     merged_field (p_fileName old) (pp_fileName payload) (p_fileName new)"

definition merged_schedule ::
  "DoctorSchedule \<Rightarrow> PartialDoctorSchedule \<Rightarrow> DoctorSchedule \<Rightarrow> bool" where
  "merged_schedule old payload new \<longleftrightarrow>
     merged_field (s_id old) (ps_id payload) (s_id new) \<and>
     merged_field (s_doctorId old) (ps_doctorId payload) (s_doctorId new) \<and>
     merged_field (s_day old) (ps_day payload) (s_day new) \<and>
     merged_field (s_startTime old) (ps_startTime payload) (s_startTime new) \<and>
     merged_field (s_endTime old) (ps_endTime payload) (s_endTime new) \<and>
     merged_field (s_activityType old) (ps_activityType payload) (s_activityType new)"

text \<open>
  A stored record that has every field of an insert payload with the submitted value.
\<close>

definition keeps_user_fields :: "InsertUser \<Rightarrow> User \<Rightarrow> bool" where
  "keeps_user_fields x r \<longleftrightarrow>
     u_username r = iu_username x \<and> u_password r = iu_password x \<and> u_email r = iu_email x \<and>
     u_fullName r = iu_fullName x \<and> u_role r = iu_role x \<and>
     u_specialization r = iu_specialization x \<and> u_contactNumber r = iu_contactNumber x \<and>
     u_address r = iu_address x"

definition keeps_appointment_fields :: "InsertAppointment \<Rightarrow> Appointment \<Rightarrow> bool" where
  "keeps_appointment_fields x r \<longleftrightarrow>
     a_patientId r = ia_patientId x \<and> a_doctorId r = ia_doctorId x \<and>
     a_appointmentDate r = ia_appointmentDate x \<and> a_duration r = ia_duration x \<and>
     a_status r = ia_status x \<and> a_type r = ia_type x \<and> a_notes r = ia_notes x"

definition keeps_bed_fields :: "InsertBed \<Rightarrow> Bed \<Rightarrow> bool" where
  "keeps_bed_fields x r \<longleftrightarrow>
     b_bedNumber r = ib_bedNumber x \<and> b_ward r = ib_ward x \<and> b_status r = ib_status x \<and>
     b_patientId r = ib_patientId x"

definition keeps_prescription_fields :: "InsertPrescription \<Rightarrow> Prescription \<Rightarrow> bool" where
  "keeps_prescription_fields x r \<longleftrightarrow>
     p_patientId r = ip_patientId x \<and> p_doctorId r = ip_doctorId x \<and>
     p_prescriptionDate r = ip_prescriptionDate x \<and> p_status r = ip_status x \<and>
     p_notes r = ip_notes x \<and> p_fileData r = ip_fileData x \<and> p_fileName r = ip_fileName x"

definition keeps_schedule_fields :: "InsertDoctorSchedule \<Rightarrow> DoctorSchedule \<Rightarrow> bool" where
  "keeps_schedule_fields x r \<longleftrightarrow>
     s_doctorId r = is_doctorId x \<and> s_day r = is_day x \<and> s_startTime r = is_startTime x \<and>
     s_endTime r = is_endTime x \<and> s_activityType r = is_activityType x"

text \<open>
  The key of every entry of a collection is the \<open>id\<close> field of its record.
\<close>

definition ids_agree :: "('v \<Rightarrow> int) \<Rightarrow> 'v jsmap \<Rightarrow> bool" where
  "ids_agree id_of m = list_all (\<lambda>e. id_of (snd e) = fst e) m"





section \<open>Example values\<close>

definition doctor1 :: User where
  "doctor1 =
     \<lparr>u_id = 1, u_username = ''drgrey'', u_password = ''s3cret'', u_email = ''grey@example.org'',
      u_fullName = ''M. Grey'', u_role = ''doctor'', u_specialization = Some ''surgery'',
      u_contactNumber = None, u_address = None\<rparr>"

definition patient1 :: User where
  "patient1 =
     \<lparr>u_id = 2, u_username = ''pat'', u_password = ''hunter2'', u_email = ''pat@example.org'',
      u_fullName = ''P. Doe'', u_role = ''patient'', u_specialization = None,
      u_contactNumber = Some ''555-0100'', u_address = None\<rparr>"

definition nurse1 :: User where
  "nurse1 =
     \<lparr>u_id = 3, u_username = ''nina'', u_password = ''pw'', u_email = ''nina@example.org'',
      u_fullName = ''N. Night'', u_role = ''nurse'', u_specialization = None,
      u_contactNumber = None, u_address = None\<rparr>"

definition insert_doctorA :: InsertUser where
  "insert_doctorA =
     \<lparr>iu_username = ''drgrey'', iu_password = ''s3cret'', iu_email = ''grey@example.org'',
      iu_fullName = ''M. Grey'', iu_role = ''doctor'', iu_specialization = Some ''surgery'',
      iu_contactNumber = None, iu_address = None\<rparr>"

definition insert_patientB :: InsertUser where
  "insert_patientB =
     \<lparr>iu_username = ''pat'', iu_password = ''hunter2'', iu_email = ''pat@example.org'',
      iu_fullName = ''P. Doe'', iu_role = ''patient'', iu_specialization = None,
      iu_contactNumber = Some ''555-0100'', iu_address = None\<rparr>"

definition insert_doctorC :: InsertUser where
  "insert_doctorC =
     \<lparr>iu_username = ''drhouse'', iu_password = ''vicodin'', iu_email = ''house@example.org'',
      iu_fullName = ''G. House'', iu_role = ''doctor'', iu_specialization = None,
      iu_contactNumber = None, iu_address = None\<rparr>"

definition slot :: "int \<Rightarrow> string \<Rightarrow> InsertDoctorSchedule" where
  "slot doctorId day =
     \<lparr>is_doctorId = doctorId, is_day = day, is_startTime = ''09:00'', is_endTime = ''17:00'',
      is_activityType = ''clinic''\<rparr>"

definition stored_slot :: "int \<Rightarrow> int \<Rightarrow> string \<Rightarrow> DoctorSchedule" where
  "stored_slot k doctorId day =
     \<lparr>s_id = k, s_doctorId = doctorId, s_day = day, s_startTime = ''09:00'',
      s_endTime = ''17:00'', s_activityType = ''clinic''\<rparr>"

text \<open>
  A store with the users 1 (doctor), 2 (patient) and 3 (doctor) and four schedule entries:
  1 and 3 of doctor 3, 2 of doctor 1, and 4 with a \<open>doctorId\<close> that is no user's id.
\<close>

definition store_with_schedules :: MemStorage where
  "store_with_schedules =
     foldl call new_MemStorage
       [CreateUser insert_doctorA, CreateUser insert_patientB, CreateUser insert_doctorC,
        CreateDoctorSchedule (slot 3 ''monday''), CreateDoctorSchedule (slot 1 ''tuesday''),
        CreateDoctorSchedule (slot 3 ''friday''), CreateDoctorSchedule (slot 9 ''sunday'')]"

text \<open>The store after construction and one schedule entry for \<open>doctorId\<close> 7.\<close>

definition store_dangling_schedule :: MemStorage where
  "store_dangling_schedule = call new_MemStorage (CreateDoctorSchedule (slot 7 ''monday''))"

definition doctor3 :: User where
  "doctor3 =
     \<lparr>u_id = 3, u_username = ''drhouse'', u_password = ''vicodin'', u_email = ''house@example.org'',
      u_fullName = ''G. House'', u_role = ''doctor'', u_specialization = None,
      u_contactNumber = None, u_address = None\<rparr>"

definition appointment_at :: "int \<Rightarrow> int \<Rightarrow> int \<Rightarrow> InsertAppointment" where
  "appointment_at patientId doctorId t =
     \<lparr>ia_patientId = patientId, ia_doctorId = doctorId, ia_appointmentDate = Some t,
      ia_duration = 30, ia_status = ''scheduled'', ia_type = ''consultation'', ia_notes = None\<rparr>"

definition stored_appointment :: "int \<Rightarrow> int \<Rightarrow> int \<Rightarrow> int \<Rightarrow> Appointment" where
  "stored_appointment k patientId doctorId t =
     \<lparr>a_id = k, a_patientId = patientId, a_doctorId = doctorId, a_appointmentDate = Some t,
      a_duration = 30, a_status = ''scheduled'', a_type = ''consultation'', a_notes = None\<rparr>"

definition prescription_for :: "int \<Rightarrow> int \<Rightarrow> InsertPrescription" where
  "prescription_for patientId doctorId =
     \<lparr>ip_patientId = patientId, ip_doctorId = doctorId, ip_prescriptionDate = Some 1710498600000,
      ip_status = ''active'', ip_notes = Some ''twice a day'', ip_fileData = None,
      ip_fileName = None\<rparr>"

definition stored_prescription :: "int \<Rightarrow> int \<Rightarrow> int \<Rightarrow> Prescription" where
  "stored_prescription k patientId doctorId =
     \<lparr>p_id = k, p_patientId = patientId, p_doctorId = doctorId,
      p_prescriptionDate = Some 1710498600000, p_status = ''active'',
      p_notes = Some ''twice a day'', p_fileData = None, p_fileName = None\<rparr>"

text \<open>
  A store with the users 1 (doctor), 2 (patient) and 3 (doctor), three appointments
  (2024-03-15 10:30, 2024-03-16 00:00 and 2024-03-15 00:00 UTC), two prescriptions and
  one schedule entry, besides the twenty beds of the constructor.
\<close>

definition store_with_records :: MemStorage where
  "store_with_records =
     foldl call new_MemStorage
       [CreateUser insert_doctorA, CreateUser insert_patientB, CreateUser insert_doctorC,
        CreateAppointment (appointment_at 2 1 1710498600000),
        CreateAppointment (appointment_at 5 3 1710547200000),
        CreateAppointment (appointment_at 2 3 1710460800000),
        CreatePrescription (prescription_for 2 1),
        CreatePrescription (prescription_for 5 3),
        CreateDoctorSchedule (slot 1 ''monday'')]"

definition no_prescription_fields :: PartialPrescription where
  "no_prescription_fields =
     \<lparr>pp_id = None, pp_patientId = None, pp_doctorId = None, pp_prescriptionDate = None,
      pp_status = None, pp_notes = None, pp_fileData = None, pp_fileName = None\<rparr>"

text \<open>A validation schema that accepts every payload that already is an insert record.\<close>

definition accept_all :: "'a \<Rightarrow> 'a parse_result" where
  "accept_all body = Parsed body"

definition no_appointment_fields :: PartialAppointment where
  "no_appointment_fields =
     \<lparr>pa_id = None, pa_patientId = None, pa_doctorId = None, pa_appointmentDate = None,
      pa_duration = None, pa_status = None, pa_type = None, pa_notes = None\<rparr>"

definition no_bed_fields :: PartialBed where
  "no_bed_fields =
     \<lparr>pb_id = None, pb_bedNumber = None, pb_ward = None, pb_status = None, pb_patientId = None\<rparr>"

definition no_schedule_fields :: PartialDoctorSchedule where
  "no_schedule_fields =
     \<lparr>ps_id = None, ps_doctorId = None, ps_day = None, ps_startTime = None, ps_endTime = None,
      ps_activityType = None\<rparr>"

definition bed_I01 :: Bed where
  "bed_I01 =
     \<lparr>b_id = 1, b_bedNumber = ''I01'', b_ward = ''icu'', b_status = ''available'',
      b_patientId = None\<rparr>"




section \<open>Lookup after \<open>set\<close>\<close>

lemma Map_get_Map_set_same: "Map_get (Map_set m k v) k = Some v"
  by (induction m) auto

lemma Map_get_Map_set_other: "k' \<noteq> k \<Longrightarrow> Map_get (Map_set m k v) k' = Map_get m k'"
  by (induction m) auto

section \<open>Seed data\<close>

lemma new_MemStorage_beds:
  "getAllBeds new_MemStorage =
     [\<lparr>b_id = 1, b_bedNumber = ''I01'', b_ward = ''icu'', b_status = ''available'', b_patientId = None\<rparr>,
      \<lparr>b_id = 2, b_bedNumber = ''P02'', b_ward = ''pediatric'', b_status = ''available'', b_patientId = None\<rparr>,
      \<lparr>b_id = 3, b_bedNumber = ''M03'', b_ward = ''maternity'', b_status = ''available'', b_patientId = None\<rparr>,
      \<lparr>b_id = 4, b_bedNumber = ''G04'', b_ward = ''general'', b_status = ''available'', b_patientId = None\<rparr>,
      \<lparr>b_id = 5, b_bedNumber = ''I05'', b_ward = ''icu'', b_status = ''available'', b_patientId = None\<rparr>,
      \<lparr>b_id = 6, b_bedNumber = ''P06'', b_ward = ''pediatric'', b_status = ''available'', b_patientId = None\<rparr>,
      \<lparr>b_id = 7, b_bedNumber = ''M07'', b_ward = ''maternity'', b_status = ''available'', b_patientId = None\<rparr>,
      \<lparr>b_id = 8, b_bedNumber = ''G08'', b_ward = ''general'', b_status = ''available'', b_patientId = None\<rparr>,
      \<lparr>b_id = 9, b_bedNumber = ''I09'', b_ward = ''icu'', b_status = ''available'', b_patientId = None\<rparr>,
      \<lparr>b_id = 10, b_bedNumber = ''P10'', b_ward = ''pediatric'', b_status = ''available'', b_patientId = None\<rparr>,
      \<lparr>b_id = 11, b_bedNumber = ''M11'', b_ward = ''maternity'', b_status = ''available'', b_patientId = None\<rparr>,
      \<lparr>b_id = 12, b_bedNumber = ''G12'', b_ward = ''general'', b_status = ''available'', b_patientId = None\<rparr>,
      \<lparr>b_id = 13, b_bedNumber = ''I13'', b_ward = ''icu'', b_status = ''available'', b_patientId = None\<rparr>,
      \<lparr>b_id = 14, b_bedNumber = ''P14'', b_ward = ''pediatric'', b_status = ''available'', b_patientId = None\<rparr>,
      \<lparr>b_id = 15, b_bedNumber = ''M15'', b_ward = ''maternity'', b_status = ''available'', b_patientId = None\<rparr>,
      \<lparr>b_id = 16, b_bedNumber = ''G16'', b_ward = ''general'', b_status = ''available'', b_patientId = None\<rparr>,
      \<lparr>b_id = 17, b_bedNumber = ''I17'', b_ward = ''icu'', b_status = ''available'', b_patientId = None\<rparr>,
      \<lparr>b_id = 18, b_bedNumber = ''P18'', b_ward = ''pediatric'', b_status = ''available'', b_patientId = None\<rparr>,
      \<lparr>b_id = 19, b_bedNumber = ''M19'', b_ward = ''maternity'', b_status = ''available'', b_patientId = None\<rparr>,
      \<lparr>b_id = 20, b_bedNumber = ''G20'', b_ward = ''general'', b_status = ''available'', b_patientId = None\<rparr>]"
  by (simp add: new_MemStorage_def initializeData_def initializeData_loop.simps createBed_def
      getAllBeds_def Map_values_def wards_def toUpperCase_def toUpperCase_char_def charAt_def
      padStart_def toString.simps Let_def)

lemma new_MemStorage_rest:
  "users new_MemStorage = [] \<and> appointments new_MemStorage = [] \<and>
   prescriptions new_MemStorage = [] \<and> doctorSchedules new_MemStorage = [] \<and>
   userIdCounter new_MemStorage = 1 \<and> appointmentIdCounter new_MemStorage = 1 \<and>
   bedIdCounter new_MemStorage = 21 \<and> prescriptionIdCounter new_MemStorage = 1 \<and>
   scheduleIdCounter new_MemStorage = 1"
  by (simp add: new_MemStorage_def initializeData_def initializeData_loop.simps createBed_def
      Let_def)

lemma get_beds_authenticated:
  "get_beds st (Some user) = (Json 200 (getAllBeds st), st)"
  by (simp add: get_beds_def ensureAuthenticated_def)

lemma bed_number_format:
  "map (\<lambda>bed. toUpperCase (charAt (b_ward bed) 0) @ padStart (toString (nat (b_id bed))) 2 CHR ''0'')
     (getAllBeds new_MemStorage)
   = [''I01'', ''P02'', ''M03'', ''G04'', ''I05'', ''P06'', ''M07'', ''G08'', ''I09'', ''P10'',
      ''M11'', ''G12'', ''I13'', ''P14'', ''M15'', ''G16'', ''I17'', ''P18'', ''M19'', ''G20'']"
  by (simp add: new_MemStorage_beds toUpperCase_def toUpperCase_char_def charAt_def
      padStart_def toString.simps)

text \<open>
  C1 (as the code has it). Immediately after the store is constructed, \<open>GET /api/beds\<close>
  of an authenticated caller answers 200 with exactly 20 beds, with ids 1 to 20 in this
  order; every bed has status \<open>available\<close> and a null \<open>patientId\<close>; the ward of bed \<open>i\<close>
  is \<open>wards[i % 4]\<close>, so the wards of beds 1..20 cycle icu, pediatric, maternity, general,
  icu, ...; and the bed number is the upper-case initial of the ward followed by the
  sequence number padded to two digits: I01, P02, M03, G04, I05, ...
\<close>

theorem C1_seed_beds:
  "get_beds new_MemStorage (Some user) = (Json 200 (getAllBeds new_MemStorage), new_MemStorage) \<and>
   length (getAllBeds new_MemStorage) = 20 \<and>
   map b_id (getAllBeds new_MemStorage) = [1 .. 20] \<and>
   map b_status (getAllBeds new_MemStorage) = replicate 20 ''available'' \<and>
   map b_patientId (getAllBeds new_MemStorage) = replicate 20 None \<and>
   map b_ward (getAllBeds new_MemStorage) = map (\<lambda>i. wards ! (i mod 4)) [1 ..< 21] \<and>
   map b_ward (getAllBeds new_MemStorage)
     = concat (replicate 5 [''icu'', ''pediatric'', ''maternity'', ''general'']) \<and>
   map b_bedNumber (getAllBeds new_MemStorage)
     = map (\<lambda>bed. toUpperCase (charAt (b_ward bed) 0) @ padStart (toString (nat (b_id bed))) 2 CHR ''0'')
         (getAllBeds new_MemStorage) \<and>
   map b_bedNumber (getAllBeds new_MemStorage)
     = [''I01'', ''P02'', ''M03'', ''G04'', ''I05'', ''P06'', ''M07'', ''G08'', ''I09'', ''P10'',
        ''M11'', ''G12'', ''I13'', ''P14'', ''M15'', ''G16'', ''I17'', ''P18'', ''M19'', ''G20'']"
proof -
  have ids: "[1 .. 20] = [1, 2, 3, 4, 5, 6, 7, 8, 9, 10, 11, 12, 13, 14, 15, 16, 17, 18, 19, 20 :: int]"
    by (simp add: upto.simps)
  have idx: "[1 ..< 21] = [1, 2, 3, 4, 5, 6, 7, 8, 9, 10, 11, 12, 13, 14, 15, 16, 17, 18, 19, 20 :: nat]"
    by (simp add: upt_rec)
  have r5: "replicate 5 x = [x, x, x, x, x]" for x :: "string list"
    by (simp add: numeral_eq_Suc)
  have r20: "replicate 20 x = [x, x, x, x, x, x, x, x, x, x, x, x, x, x, x, x, x, x, x, x]" for x :: 'a
    by (simp add: numeral_eq_Suc)
  have a: "get_beds new_MemStorage (Some user) = (Json 200 (getAllBeds new_MemStorage), new_MemStorage)"
    by (rule get_beds_authenticated)
  have b: "length (getAllBeds new_MemStorage) = 20"
    by (simp add: new_MemStorage_beds)
  have c: "map b_id (getAllBeds new_MemStorage) = [1 .. 20]"
    unfolding ids by (simp add: new_MemStorage_beds)
  have d: "map b_status (getAllBeds new_MemStorage) = replicate 20 ''available''"
    unfolding r20 by (simp add: new_MemStorage_beds)
  have e: "map b_patientId (getAllBeds new_MemStorage) = replicate 20 None"
    unfolding r20 by (simp add: new_MemStorage_beds)
  have f: "map b_ward (getAllBeds new_MemStorage) = map (\<lambda>i. wards ! (i mod 4)) [1 ..< 21]"
    unfolding idx by (simp add: new_MemStorage_beds wards_def)
  have g: "map b_ward (getAllBeds new_MemStorage)
     = concat (replicate 5 [''icu'', ''pediatric'', ''maternity'', ''general''])"
    unfolding r5 by (simp add: new_MemStorage_beds)
  have h: "map b_bedNumber (getAllBeds new_MemStorage)
     = [''I01'', ''P02'', ''M03'', ''G04'', ''I05'', ''P06'', ''M07'', ''G08'', ''I09'', ''P10'',
        ''M11'', ''G12'', ''I13'', ''P14'', ''M15'', ''G16'', ''I17'', ''P18'', ''M19'', ''G20'']"
    by (simp add: new_MemStorage_beds)
  have i: "map b_bedNumber (getAllBeds new_MemStorage)
     = map (\<lambda>bed. toUpperCase (charAt (b_ward bed) 0) @ padStart (toString (nat (b_id bed))) 2 CHR ''0'')
         (getAllBeds new_MemStorage)"
    unfolding bed_number_format by (rule h)
  show ?thesis by (intro conjI a b c d e f g i h)
qed

theorem C1_seed_beds_witness:
  "get_beds new_MemStorage (Some doctor1) = (Json 200 (getAllBeds new_MemStorage), new_MemStorage) \<and>
   map b_bedNumber (getAllBeds new_MemStorage)
     = [''I01'', ''P02'', ''M03'', ''G04'', ''I05'', ''P06'', ''M07'', ''G08'', ''I09'', ''P10'',
        ''M11'', ''G12'', ''I13'', ''P14'', ''M15'', ''G16'', ''I17'', ''P18'', ''M19'', ''G20'']"
  using C1_seed_beds [of doctor1] by (elim conjE, intro conjI)

theorem C1_claimed_cycle_counterexample:
  "\<not> (take 5 (map b_ward (getAllBeds new_MemStorage))
        = [''general'', ''icu'', ''pediatric'', ''maternity'', ''general'']) \<and>
   \<not> (take 5 (map b_bedNumber (getAllBeds new_MemStorage))
        = [''G01'', ''I02'', ''P03'', ''M04'', ''G05''])"
  by (simp add: new_MemStorage_beds)

section \<open>The users collection in the states of the store\<close>

lemma Map_set_fresh:
  "k \<notin> set (map fst m) \<Longrightarrow> Map_set m k v = m @ [(k, v)]"
  by (induction m) auto

lemma users_consistent_new: "users_consistent new_MemStorage"
  by (simp add: users_consistent_def new_MemStorage_rest)

lemma users_consistent_createUser:
  assumes "users_consistent st"
  shows "users_consistent (snd (createUser st x))"
proof -
  let ?k = "userIdCounter st"
  from assms have below: "list_all (\<lambda>e. u_id (snd e) = fst e \<and> fst e < ?k) (users st)"
    and dist: "distinct (map fst (users st))"
    by (simp_all add: users_consistent_def)
  from below have fresh: "?k \<notin> set (map fst (users st))"
    by (auto simp: list_all_iff)
  from below have below': "list_all (\<lambda>e. u_id (snd e) = fst e \<and> fst e < ?k + 1) (users st)"
    by (auto simp: list_all_iff)
  show ?thesis
    using fresh dist below'
    by (simp add: users_consistent_def createUser_def Let_def Map_set_fresh)
qed

lemma other_calls_users:
  "users (snd (createAppointment st a)) = users st"
  "users (snd (updateAppointment st k pa)) = users st"
  "users (snd (deleteAppointment st k)) = users st"
  "users (snd (createBed st b)) = users st"
  "users (snd (updateBed st k pb)) = users st"
  "users (snd (createPrescription st p)) = users st"
  "users (snd (updatePrescription st k pp)) = users st"
  "users (snd (createDoctorSchedule st s)) = users st"
  "users (snd (updateDoctorSchedule st k ps)) = users st"
  "users (snd (deleteDoctorSchedule st k)) = users st"
  by (simp_all add: createAppointment_def updateAppointment_def deleteAppointment_def
      createBed_def updateBed_def createPrescription_def updatePrescription_def
      createDoctorSchedule_def updateDoctorSchedule_def deleteDoctorSchedule_def
      Let_def split: option.split prod.split)

lemma other_calls_userIdCounter:
  "userIdCounter (snd (createAppointment st a)) = userIdCounter st"
  "userIdCounter (snd (updateAppointment st k pa)) = userIdCounter st"
  "userIdCounter (snd (deleteAppointment st k)) = userIdCounter st"
  "userIdCounter (snd (createBed st b)) = userIdCounter st"
  "userIdCounter (snd (updateBed st k pb)) = userIdCounter st"
  "userIdCounter (snd (createPrescription st p)) = userIdCounter st"
  "userIdCounter (snd (updatePrescription st k pp)) = userIdCounter st"
  "userIdCounter (snd (createDoctorSchedule st s)) = userIdCounter st"
  "userIdCounter (snd (updateDoctorSchedule st k ps)) = userIdCounter st"
  "userIdCounter (snd (deleteDoctorSchedule st k)) = userIdCounter st"
  by (simp_all add: createAppointment_def updateAppointment_def deleteAppointment_def
      createBed_def updateBed_def createPrescription_def updatePrescription_def
      createDoctorSchedule_def updateDoctorSchedule_def deleteDoctorSchedule_def
      Let_def split: option.split prod.split)

lemma users_consistent_call:
  assumes "users_consistent st"
  shows "users_consistent (call st c)"
proof (cases c)
  case (CreateUser x)
  then show ?thesis
    using assms by (simp add: users_consistent_createUser)
qed (use assms in \<open>simp_all add: users_consistent_def other_calls_users other_calls_userIdCounter\<close>)

lemma reachable_users_consistent:
  "reachable st \<Longrightarrow> users_consistent st"
  by (induction rule: reachable.induct) (simp_all add: users_consistent_new users_consistent_call)

lemma users_consistent_distinct_ids:
  assumes "users_consistent st"
  shows "distinct (map u_id (getUsersByRole st role))"
proof -
  from assms have "map u_id (Map_values (users st)) = map fst (users st)"
    by (auto simp: users_consistent_def Map_values_def list_all_iff)
  with assms have "distinct (map u_id (Map_values (users st)))"
    by (simp add: users_consistent_def)
  then show ?thesis
    unfolding getUsersByRole_def by (rule distinct_map_filter)
qed

section \<open>The fan-out loop of the list routes\<close>

lemma push_each_concat:
  "push_each byDoctor doctorIds acc = acc @ concat (map byDoctor doctorIds)"
  by (induction doctorIds arbitrary: acc) simp_all

lemma mset_fan_out:
  assumes "distinct ds"
  shows "mset (concat (map (\<lambda>d. filter (\<lambda>x. f x = d) xs) ds))
         = filter_mset (\<lambda>x. f x \<in> set ds) (mset xs)"
  using assms
proof (induction ds)
  case Nil
  then show ?case by simp
next
  case (Cons d ds)
  then have "d \<notin> set ds" and "distinct ds" by simp_all
  have split: "filter_mset (\<lambda>x. f x \<in> set (d # ds)) (mset xs)
        = filter_mset (\<lambda>x. f x = d) (mset xs) + filter_mset (\<lambda>x. f x \<in> set ds) (mset xs)"
    using \<open>d \<notin> set ds\<close> by (induction xs) auto
  show ?case
    using Cons.IH [OF \<open>distinct ds\<close>] by (simp only: split) simp
qed

lemma get_schedules_not_doctor:
  "u_role user \<noteq> ''doctor'' \<Longrightarrow>
   get_schedules st (Some user)
     = (Json 200 (concat (map (\<lambda>doctor. getDoctorSchedulesByDoctor st (u_id doctor))
                            (getUsersByRole st ''doctor''))), st)"
  by (simp add: get_schedules_def ensureAuthenticated_def push_each_concat Let_def comp_def)

text \<open>
  C2 (as the code has it). For every state of the store and every authenticated caller
  whose role is neither \<open>patient\<close> nor \<open>doctor\<close>, \<open>GET /api/schedules\<close> answers 200 with
  the concatenation, over the users with role \<open>doctor\<close> in the iteration order of the
  store, of the schedule entries with that doctor's id, and leaves the store as it is.
  As a multiset, the result is the collection of schedule entries restricted to the
  entries whose \<open>doctorId\<close> is the id of a user with role \<open>doctor\<close>: no entry occurs more
  often than in the collection, and no entry of a doctor is omitted. Entries whose
  \<open>doctorId\<close> is not the id of a doctor are not in the result.
\<close>

theorem C2_schedules_fan_out:
  assumes "reachable st" and "u_role user \<noteq> ''patient''" and "u_role user \<noteq> ''doctor''"
  shows "get_schedules st (Some user)
           = (Json 200 (concat (map (\<lambda>doctor. getDoctorSchedulesByDoctor st (u_id doctor))
                                  (getUsersByRole st ''doctor''))), st) \<and>
         mset (concat (map (\<lambda>doctor. getDoctorSchedulesByDoctor st (u_id doctor))
                         (getUsersByRole st ''doctor'')))
           = filter_mset (\<lambda>schedule. \<exists>doctor \<in> set (getUsersByRole st ''doctor'').
                                        s_doctorId schedule = u_id doctor)
               (mset (Map_values (doctorSchedules st)))"
proof
  show "get_schedules st (Some user)
          = (Json 200 (concat (map (\<lambda>doctor. getDoctorSchedulesByDoctor st (u_id doctor))
                                 (getUsersByRole st ''doctor''))), st)"
    using assms(3) by (rule get_schedules_not_doctor)
next
  let ?ids = "map u_id (getUsersByRole st ''doctor'')"
  let ?all = "Map_values (doctorSchedules st)"
  have "distinct ?ids"
    using assms(1) by (intro users_consistent_distinct_ids reachable_users_consistent)
  then have fan: "mset (concat (map (\<lambda>d. filter (\<lambda>x. s_doctorId x = d) ?all) ?ids))
      = filter_mset (\<lambda>x. s_doctorId x \<in> set ?ids) (mset ?all)"
    by (rule mset_fan_out)
  have same: "filter_mset (\<lambda>x. s_doctorId x \<in> set ?ids) (mset ?all)
      = filter_mset (\<lambda>schedule. \<exists>doctor \<in> set (getUsersByRole st ''doctor'').
                                     s_doctorId schedule = u_id doctor) (mset ?all)"
    by (rule filter_mset_cong) auto
  have unfolded: "concat (map (\<lambda>doctor. getDoctorSchedulesByDoctor st (u_id doctor))
                         (getUsersByRole st ''doctor''))
      = concat (map (\<lambda>d. filter (\<lambda>x. s_doctorId x = d) ?all) ?ids)"
    by (simp add: getDoctorSchedulesByDoctor_def comp_def)
  show "mset (concat (map (\<lambda>doctor. getDoctorSchedulesByDoctor st (u_id doctor))
                         (getUsersByRole st ''doctor'')))
           = filter_mset (\<lambda>schedule. \<exists>doctor \<in> set (getUsersByRole st ''doctor'').
                                        s_doctorId schedule = u_id doctor)
               (mset (Map_values (doctorSchedules st)))"
    by (simp only: unfolded fan same)
qed

lemma store_with_schedules_reachable: "reachable store_with_schedules"
  unfolding store_with_schedules_def foldl.simps by (intro reachable.intros)

lemma store_with_schedules_entries:
  "Map_values (doctorSchedules store_with_schedules)
     = [stored_slot 1 3 ''monday'', stored_slot 2 1 ''tuesday'', stored_slot 3 3 ''friday'',
        stored_slot 4 9 ''sunday'']"
  by (simp add: store_with_schedules_def createUser_def createDoctorSchedule_def Let_def
      new_MemStorage_rest slot_def stored_slot_def Map_values_def)

theorem C2_schedules_fan_out_witness:
  "reachable store_with_schedules \<and> u_role nurse1 \<noteq> ''patient'' \<and> u_role nurse1 \<noteq> ''doctor'' \<and>
   get_schedules store_with_schedules (Some nurse1)
     = (Json 200 [stored_slot 2 1 ''tuesday'', stored_slot 1 3 ''monday'', stored_slot 3 3 ''friday''],
        store_with_schedules)"
proof -
  have r: "reachable store_with_schedules"
    by (rule store_with_schedules_reachable)
  have p: "u_role nurse1 \<noteq> ''patient''" and d: "u_role nurse1 \<noteq> ''doctor''"
    by (simp_all add: nurse1_def)
  have ids: "map u_id (getUsersByRole store_with_schedules ''doctor'') = [1, 3]"
    by (simp add: store_with_schedules_def createUser_def createDoctorSchedule_def Let_def
        new_MemStorage_rest insert_doctorA_def insert_patientB_def insert_doctorC_def
        getUsersByRole_def Map_values_def)
  have "concat (map (\<lambda>doctor. getDoctorSchedulesByDoctor store_with_schedules (u_id doctor))
                  (getUsersByRole store_with_schedules ''doctor''))
        = concat (map (getDoctorSchedulesByDoctor store_with_schedules)
                  (map u_id (getUsersByRole store_with_schedules ''doctor'')))"
    by (simp add: comp_def)
  also have "\<dots> = [stored_slot 2 1 ''tuesday'', stored_slot 1 3 ''monday'', stored_slot 3 3 ''friday'']"
    unfolding ids
    by (simp add: getDoctorSchedulesByDoctor_def store_with_schedules_entries)
       (simp add: stored_slot_def)
  finally show ?thesis
    using C2_schedules_fan_out [OF r p d] r p d by simp
qed

theorem C2_omission_counterexample:
  "reachable store_dangling_schedule \<and>
   u_role nurse1 \<noteq> ''patient'' \<and> u_role nurse1 \<noteq> ''doctor'' \<and>
   get_schedules store_dangling_schedule (Some nurse1) = (Json 200 [], store_dangling_schedule) \<and>
   Map_values (doctorSchedules store_dangling_schedule) = [stored_slot 1 7 ''monday'']"
proof -
  have "reachable store_dangling_schedule"
    unfolding store_dangling_schedule_def by (intro reachable.intros)
  moreover have "u_role nurse1 \<noteq> ''patient''" "u_role nurse1 \<noteq> ''doctor''"
    by (simp_all add: nurse1_def)
  moreover have "getUsersByRole store_dangling_schedule ''doctor'' = []"
    by (simp add: store_dangling_schedule_def createDoctorSchedule_def Let_def
        new_MemStorage_rest getUsersByRole_def Map_values_def)
  then have "get_schedules store_dangling_schedule (Some nurse1)
      = (Json 200 [], store_dangling_schedule)"
    by (simp add: get_schedules_not_doctor nurse1_def)
  moreover have "Map_values (doctorSchedules store_dangling_schedule) = [stored_slot 1 7 ''monday'']"
    by (simp add: store_dangling_schedule_def createDoctorSchedule_def Let_def
        new_MemStorage_rest slot_def stored_slot_def Map_values_def)
  ultimately show ?thesis by simp
qed

section \<open>Ownership checks of the routes\<close>

lemma store_with_records_contents:
  "users store_with_records
     = [(1, fst (createUser (new_MemStorage\<lparr>userIdCounter := 1\<rparr>) insert_doctorA)),
        (2, fst (createUser (new_MemStorage\<lparr>userIdCounter := 2\<rparr>) insert_patientB)),
        (3, fst (createUser (new_MemStorage\<lparr>userIdCounter := 3\<rparr>) insert_doctorC))]"
  "appointments store_with_records
     = [(1, stored_appointment 1 2 1 1710498600000), (2, stored_appointment 2 5 3 1710547200000),
        (3, stored_appointment 3 2 3 1710460800000)]"
  "prescriptions store_with_records
     = [(1, stored_prescription 1 2 1), (2, stored_prescription 2 5 3)]"
  "doctorSchedules store_with_records = [(1, stored_slot 1 1 ''monday'')]"
  "appointmentIdCounter store_with_records = 4"
  "userIdCounter store_with_records = 4"
  "prescriptionIdCounter store_with_records = 3"
  "scheduleIdCounter store_with_records = 2"
  by (simp_all add: store_with_records_def createUser_def createAppointment_def
      createPrescription_def createDoctorSchedule_def Let_def new_MemStorage_rest new_Date_def
      slot_def stored_slot_def
      appointment_at_def stored_appointment_def prescription_for_def stored_prescription_def)

lemma put_prescriptions_doctor:
  assumes "getPrescription st k = Some prescription" and "u_role user = ''doctor''"
  shows "put_prescriptions st (Some user) k body
     = (if p_doctorId prescription = u_id user then
          (Json 200 (Some (spreadPrescription prescription body)),
           st\<lparr>prescriptions := Map_set (prescriptions st) k (spreadPrescription prescription body)\<rparr>)
        else (Message 403 ''You can only modify your own prescriptions'', st))"
  using assms
  by (simp add: put_prescriptions_def ensureAuthenticated_def checkRole_def
      updatePrescription_def getPrescription_def Let_def)

text \<open>
  C3. For every prescription stored under \<open>k\<close> and every authenticated caller with role
  \<open>doctor\<close>, \<open>PUT /api/prescriptions/k\<close> answers 200 and stores the merged record when
  the \<open>doctorId\<close> of the stored record is the caller's id, and answers 403 and leaves the
  store as it is when it is not. The status of the answer is the same for any two
  payloads, so the decision does not depend on a \<open>doctorId\<close> in the payload.
\<close>

theorem C3_prescription_update_ownership:
  assumes "getPrescription st k = Some prescription" and "u_role user = ''doctor''"
  shows "put_prescriptions st (Some user) k body
           = (if p_doctorId prescription = u_id user then
                (Json 200 (Some (spreadPrescription prescription body)),
                 st\<lparr>prescriptions :=
                      Map_set (prescriptions st) k (spreadPrescription prescription body)\<rparr>)
              else (Message 403 ''You can only modify your own prescriptions'', st)) \<and>
         (status_of (fst (put_prescriptions st (Some user) k body)) = 200
            \<longleftrightarrow> p_doctorId prescription = u_id user) \<and>
         (p_doctorId prescription \<noteq> u_id user \<longrightarrow>
            status_of (fst (put_prescriptions st (Some user) k body)) = 403 \<and>
            snd (put_prescriptions st (Some user) k body) = st) \<and>
         status_of (fst (put_prescriptions st (Some user) k body))
           = status_of (fst (put_prescriptions st (Some user) k body'))"
  by (simp add: put_prescriptions_doctor [OF assms] status_of_def)

theorem C3_prescription_update_ownership_witness:
  "getPrescription store_with_records 1 = Some (stored_prescription 1 2 1) \<and>
   u_role doctor3 = ''doctor'' \<and>
   p_doctorId (stored_prescription 1 2 1) \<noteq> u_id doctor3 \<and>
   put_prescriptions store_with_records (Some doctor3) 1
       (no_prescription_fields\<lparr>pp_doctorId := Some 3, pp_notes := Some None\<rparr>)
     = (Message 403 ''You can only modify your own prescriptions'', store_with_records) \<and>
   status_of (fst (put_prescriptions store_with_records (Some doctor1) 1
       (no_prescription_fields\<lparr>pp_doctorId := Some 3, pp_notes := Some None\<rparr>))) = 200"
proof -
  have g: "getPrescription store_with_records 1 = Some (stored_prescription 1 2 1)"
    by (simp add: getPrescription_def store_with_records_contents)
  have r3: "u_role doctor3 = ''doctor''" and r1: "u_role doctor1 = ''doctor''"
    by (simp_all add: doctor3_def doctor1_def)
  have o3: "p_doctorId (stored_prescription 1 2 1) \<noteq> u_id doctor3"
    and o1: "p_doctorId (stored_prescription 1 2 1) = u_id doctor1"
    by (simp_all add: stored_prescription_def doctor3_def doctor1_def)
  show ?thesis
    using C3_prescription_update_ownership [OF g r3] C3_prescription_update_ownership [OF g r1]
      g r3 o3 o1
    by (simp add: status_of_def)
qed

lemma post_appointments_parsed:
  assumes "insertAppointmentSchema body = Parsed appointmentData"
  shows "post_appointments insertAppointmentSchema st (Some user) body
     = (if u_role user = ''patient'' \<and> ia_patientId appointmentData \<noteq> u_id user then
          (Message 403 ''You can only create appointments for yourself'', st)
        else (Json 201 (fst (createAppointment st appointmentData)),
              snd (createAppointment st appointmentData)))"
  using assms
  by (simp add: post_appointments_def ensureAuthenticated_def handleValidation_def
      split: prod.split)

lemma createAppointment_stored:
  "getAppointment (snd (createAppointment st x)) (a_id (fst (createAppointment st x)))
     = Some (fst (createAppointment st x))"
  by (simp add: createAppointment_def getAppointment_def Let_def Map_get_Map_set_same)

text \<open>
  C4. For every authenticated caller with role \<open>patient\<close> and every payload that the
  appointment schema accepts: when the \<open>patientId\<close> of the parsed payload differs from the
  caller's id, \<open>POST /api/appointments\<close> answers 403 and leaves the store as it is; when
  it is the caller's id, the route answers 201 with the record that \<open>createAppointment\<close>
  returns, which is then stored under its id and has the caller as patient.
\<close>

theorem C4_patient_creates_own_appointments_only:
  assumes "u_role user = ''patient''" and "insertAppointmentSchema body = Parsed appointmentData"
  shows "(ia_patientId appointmentData \<noteq> u_id user \<longrightarrow>
            post_appointments insertAppointmentSchema st (Some user) body
              = (Message 403 ''You can only create appointments for yourself'', st)) \<and>
         (ia_patientId appointmentData = u_id user \<longrightarrow>
            post_appointments insertAppointmentSchema st (Some user) body
              = (Json 201 (fst (createAppointment st appointmentData)),
                 snd (createAppointment st appointmentData)) \<and>
            getAppointment (snd (post_appointments insertAppointmentSchema st (Some user) body))
                (a_id (fst (createAppointment st appointmentData)))
              = Some (fst (createAppointment st appointmentData)) \<and>
            a_patientId (fst (createAppointment st appointmentData)) = u_id user)"
proof (intro conjI impI)
  assume "ia_patientId appointmentData \<noteq> u_id user"
  then show "post_appointments insertAppointmentSchema st (Some user) body
      = (Message 403 ''You can only create appointments for yourself'', st)"
    using assms(1) by (simp add: post_appointments_parsed [of insertAppointmentSchema body appointmentData, OF assms(2)])
next
  assume own: "ia_patientId appointmentData = u_id user"
  then show post: "post_appointments insertAppointmentSchema st (Some user) body
      = (Json 201 (fst (createAppointment st appointmentData)),
         snd (createAppointment st appointmentData))"
    by (simp add: post_appointments_parsed [of insertAppointmentSchema body appointmentData, OF assms(2)])
  show "getAppointment (snd (post_appointments insertAppointmentSchema st (Some user) body))
      (a_id (fst (createAppointment st appointmentData)))
      = Some (fst (createAppointment st appointmentData))"
    by (simp add: post createAppointment_stored)
  show "a_patientId (fst (createAppointment st appointmentData)) = u_id user"
    using own by (simp add: createAppointment_def Let_def)
qed

theorem C4_patient_creates_own_appointments_only_witness:
  "u_role patient1 = ''patient'' \<and>
   accept_all (appointment_at 2 1 1710583200000) = Parsed (appointment_at 2 1 1710583200000) \<and>
   accept_all (appointment_at 5 1 1710583200000) = Parsed (appointment_at 5 1 1710583200000) \<and>
   fst (post_appointments accept_all store_with_records (Some patient1)
          (appointment_at 2 1 1710583200000))
     = Json 201 (stored_appointment 4 2 1 1710583200000) \<and>
   post_appointments accept_all store_with_records (Some patient1)
       (appointment_at 5 1 1710583200000)
     = (Message 403 ''You can only create appointments for yourself'', store_with_records)"
proof -
  have r: "u_role patient1 = ''patient''"
    by (simp add: patient1_def)
  have a2: "accept_all (appointment_at 2 1 1710583200000) = Parsed (appointment_at 2 1 1710583200000)"
    and a5: "accept_all (appointment_at 5 1 1710583200000) = Parsed (appointment_at 5 1 1710583200000)"
    by (simp_all add: accept_all_def)
  have own: "ia_patientId (appointment_at 2 1 1710583200000) = u_id patient1"
    and other: "ia_patientId (appointment_at 5 1 1710583200000) \<noteq> u_id patient1"
    by (simp_all add: appointment_at_def patient1_def)
  have created: "fst (createAppointment store_with_records (appointment_at 2 1 1710583200000))
      = stored_appointment 4 2 1 1710583200000"
    by (simp add: createAppointment_def Let_def store_with_records_contents new_Date_def
        appointment_at_def stored_appointment_def)
  show ?thesis
    using
      C4_patient_creates_own_appointments_only
        [where user = patient1 and insertAppointmentSchema = accept_all
           and body = "appointment_at 2 1 1710583200000"
           and appointmentData = "appointment_at 2 1 1710583200000"
           and st = store_with_records, OF r a2]
      C4_patient_creates_own_appointments_only
        [where user = patient1 and insertAppointmentSchema = accept_all
           and body = "appointment_at 5 1 1710583200000"
           and appointmentData = "appointment_at 5 1 1710583200000"
           and st = store_with_records, OF r a5]
      r a2 a5 own other created
    by simp
qed

lemma get_appointments_patient:
  "u_role user = ''patient'' \<Longrightarrow>
   get_appointments st (Some user) = (Json 200 (getAppointmentsByPatient st (u_id user)), st)"
  by (simp add: get_appointments_def ensureAuthenticated_def)

lemma get_prescriptions_patient:
  "u_role user = ''patient'' \<Longrightarrow>
   get_prescriptions st (Some user) = (Json 200 (getPrescriptionsByPatient st (u_id user)), st)"
  by (simp add: get_prescriptions_def ensureAuthenticated_def)

text \<open>
  C5. For every store and every authenticated caller with role \<open>patient\<close>,
  \<open>GET /api/appointments\<close> and \<open>GET /api/prescriptions\<close> answer 200 with a list in which
  every record has the caller's id as \<open>patientId\<close>; the list is the collection filtered by
  that condition.
\<close>

theorem C5_patient_lists_own_records:
  assumes "u_role user = ''patient''"
  shows "(\<exists>records.
            get_appointments st (Some user) = (Json 200 records, st) \<and>
            records = filter (\<lambda>a. a_patientId a = u_id user) (Map_values (appointments st)) \<and>
            (\<forall>a \<in> set records. a_patientId a = u_id user)) \<and>
         (\<exists>records.
            get_prescriptions st (Some user) = (Json 200 records, st) \<and>
            records = filter (\<lambda>p. p_patientId p = u_id user) (Map_values (prescriptions st)) \<and>
            (\<forall>p \<in> set records. p_patientId p = u_id user))"
  using assms
  by (simp add: get_appointments_patient get_prescriptions_patient
      getAppointmentsByPatient_def getPrescriptionsByPatient_def)

theorem C5_patient_lists_own_records_witness:
  "u_role patient1 = ''patient'' \<and>
   get_appointments store_with_records (Some patient1)
     = (Json 200 [stored_appointment 1 2 1 1710498600000, stored_appointment 3 2 3 1710460800000],
        store_with_records) \<and>
   get_prescriptions store_with_records (Some patient1)
     = (Json 200 [stored_prescription 1 2 1], store_with_records)"
proof -
  have r: "u_role patient1 = ''patient''"
    by (simp add: patient1_def)
  have a: "filter (\<lambda>a. a_patientId a = u_id patient1) (Map_values (appointments store_with_records))
      = [stored_appointment 1 2 1 1710498600000, stored_appointment 3 2 3 1710460800000]"
    by (simp add: store_with_records_contents Map_values_def stored_appointment_def patient1_def)
  have p: "filter (\<lambda>p. p_patientId p = u_id patient1) (Map_values (prescriptions store_with_records))
      = [stored_prescription 1 2 1]"
    by (simp add: store_with_records_contents Map_values_def stored_prescription_def patient1_def)
  show ?thesis
    using C5_patient_lists_own_records [OF r, of store_with_records] r
    unfolding a p by simp
qed

section \<open>Partial updates\<close>

lemma merged_field_spread: "merged_field old payload new \<longleftrightarrow> new = spread old payload"
  by (cases payload) (auto simp: merged_field_def spread_def)

lemma merged_appointment_spread:
  "merged_appointment old payload new \<longleftrightarrow> new = spreadAppointment old payload"
  by (cases new) (auto simp: merged_appointment_def merged_field_spread spreadAppointment_def)

lemma merged_bed_spread:
  "merged_bed old payload new \<longleftrightarrow> new = spreadBed old payload"
  by (cases new) (auto simp: merged_bed_def merged_field_spread spreadBed_def)

lemma merged_prescription_spread:
  "merged_prescription old payload new \<longleftrightarrow> new = spreadPrescription old payload"
  by (cases new) (auto simp: merged_prescription_def merged_field_spread spreadPrescription_def)

lemma merged_schedule_spread:
  "merged_schedule old payload new \<longleftrightarrow> new = spreadDoctorSchedule old payload"
  by (cases new) (auto simp: merged_schedule_def merged_field_spread spreadDoctorSchedule_def)

lemma updateAppointment_cases:
  "updateAppointment st k payload
     = (case getAppointment st k of
          None \<Rightarrow> (None, st)
        | Some old \<Rightarrow>
            (Some (spreadAppointment old payload),
             st\<lparr>appointments := Map_set (appointments st) k (spreadAppointment old payload)\<rparr>))"
  by (simp add: updateAppointment_def getAppointment_def Let_def split: option.split)

lemma updateBed_cases:
  "updateBed st k payload
     = (case getBed st k of
          None \<Rightarrow> (None, st)
        | Some old \<Rightarrow>
            (Some (spreadBed old payload),
             st\<lparr>beds := Map_set (beds st) k (spreadBed old payload)\<rparr>))"
  by (simp add: updateBed_def getBed_def Let_def split: option.split)

lemma updatePrescription_cases:
  "updatePrescription st k payload
     = (case getPrescription st k of
          None \<Rightarrow> (None, st)
        | Some old \<Rightarrow>
            (Some (spreadPrescription old payload),
             st\<lparr>prescriptions := Map_set (prescriptions st) k (spreadPrescription old payload)\<rparr>))"
  by (simp add: updatePrescription_def getPrescription_def Let_def split: option.split)

lemma updateDoctorSchedule_cases:
  "updateDoctorSchedule st k payload
     = (case getDoctorSchedule st k of
          None \<Rightarrow> (None, st)
        | Some old \<Rightarrow>
            (Some (spreadDoctorSchedule old payload),
             st\<lparr>doctorSchedules :=
                  Map_set (doctorSchedules st) k (spreadDoctorSchedule old payload)\<rparr>))"
  by (simp add: updateDoctorSchedule_def getDoctorSchedule_def Let_def split: option.split)

lemma updateAppointment_spec:
  "(getAppointment st k = Some old \<longrightarrow>
      (\<exists>new. merged_appointment old payload new \<and>
         updateAppointment st k payload
           = (Some new, st\<lparr>appointments := Map_set (appointments st) k new\<rparr>) \<and>
         getAppointment (snd (updateAppointment st k payload)) k = Some new \<and>
         (\<forall>k'. k' \<noteq> k \<longrightarrow>
            getAppointment (snd (updateAppointment st k payload)) k' = getAppointment st k'))) \<and>
   (getAppointment st k = None \<longrightarrow> updateAppointment st k payload = (None, st))"
  by (simp add: updateAppointment_cases merged_appointment_spread)
     (simp add: getAppointment_def Map_get_Map_set_same Map_get_Map_set_other)

lemma updateBed_spec:
  "(getBed st k = Some old \<longrightarrow>
      (\<exists>new. merged_bed old payload new \<and>
         updateBed st k payload = (Some new, st\<lparr>beds := Map_set (beds st) k new\<rparr>) \<and>
         getBed (snd (updateBed st k payload)) k = Some new \<and>
         (\<forall>k'. k' \<noteq> k \<longrightarrow> getBed (snd (updateBed st k payload)) k' = getBed st k'))) \<and>
   (getBed st k = None \<longrightarrow> updateBed st k payload = (None, st))"
  by (simp add: updateBed_cases merged_bed_spread)
     (simp add: getBed_def Map_get_Map_set_same Map_get_Map_set_other)

lemma updatePrescription_spec:
  "(getPrescription st k = Some old \<longrightarrow>
      (\<exists>new. merged_prescription old payload new \<and>
         updatePrescription st k payload
           = (Some new, st\<lparr>prescriptions := Map_set (prescriptions st) k new\<rparr>) \<and>
         getPrescription (snd (updatePrescription st k payload)) k = Some new \<and>
         (\<forall>k'. k' \<noteq> k \<longrightarrow>
            getPrescription (snd (updatePrescription st k payload)) k' = getPrescription st k'))) \<and>
   (getPrescription st k = None \<longrightarrow> updatePrescription st k payload = (None, st))"
  by (simp add: updatePrescription_cases merged_prescription_spread)
     (simp add: getPrescription_def Map_get_Map_set_same Map_get_Map_set_other)

lemma updateDoctorSchedule_spec:
  "(getDoctorSchedule st k = Some old \<longrightarrow>
      (\<exists>new. merged_schedule old payload new \<and>
         updateDoctorSchedule st k payload
           = (Some new, st\<lparr>doctorSchedules := Map_set (doctorSchedules st) k new\<rparr>) \<and>
         getDoctorSchedule (snd (updateDoctorSchedule st k payload)) k = Some new \<and>
         (\<forall>k'. k' \<noteq> k \<longrightarrow>
            getDoctorSchedule (snd (updateDoctorSchedule st k payload)) k'
              = getDoctorSchedule st k'))) \<and>
   (getDoctorSchedule st k = None \<longrightarrow> updateDoctorSchedule st k payload = (None, st))"
  by (simp add: updateDoctorSchedule_cases merged_schedule_spread)
     (simp add: getDoctorSchedule_def Map_get_Map_set_same Map_get_Map_set_other)

text \<open>
  C6. For appointments, beds, prescriptions and schedules, for every store, every key
  \<open>k\<close> and every partial payload: if a record \<open>old\<close> is stored under \<open>k\<close>, the update
  returns a record \<open>new\<close> whose fields present in the payload have the payload's values and
  whose fields absent from it have the values of \<open>old\<close>; the store it leaves is the old
  store with \<open>new\<close> under \<open>k\<close> in that collection (every other collection and counter as
  before), so that the lookup of \<open>k\<close> gives \<open>new\<close> and the lookup of any other key is as
  before. If nothing is stored under \<open>k\<close>, the update returns not-found (\<open>undefined\<close>)
  and the store is unchanged.
\<close>

theorem C6_update_merges_or_not_found:
  "((getAppointment st k = Some appointment \<longrightarrow>
      (\<exists>new. merged_appointment appointment appointmentUpdate new \<and>
         updateAppointment st k appointmentUpdate
           = (Some new, st\<lparr>appointments := Map_set (appointments st) k new\<rparr>) \<and>
         getAppointment (snd (updateAppointment st k appointmentUpdate)) k = Some new \<and>
         (\<forall>k'. k' \<noteq> k \<longrightarrow>
            getAppointment (snd (updateAppointment st k appointmentUpdate)) k'
              = getAppointment st k'))) \<and>
    (getAppointment st k = None \<longrightarrow> updateAppointment st k appointmentUpdate = (None, st))) \<and>
   ((getBed st k = Some bed \<longrightarrow>
      (\<exists>new. merged_bed bed bedUpdate new \<and>
         updateBed st k bedUpdate = (Some new, st\<lparr>beds := Map_set (beds st) k new\<rparr>) \<and>
         getBed (snd (updateBed st k bedUpdate)) k = Some new \<and>
         (\<forall>k'. k' \<noteq> k \<longrightarrow> getBed (snd (updateBed st k bedUpdate)) k' = getBed st k'))) \<and>
    (getBed st k = None \<longrightarrow> updateBed st k bedUpdate = (None, st))) \<and>
   ((getPrescription st k = Some prescription \<longrightarrow>
      (\<exists>new. merged_prescription prescription prescriptionUpdate new \<and>
         updatePrescription st k prescriptionUpdate
           = (Some new, st\<lparr>prescriptions := Map_set (prescriptions st) k new\<rparr>) \<and>
         getPrescription (snd (updatePrescription st k prescriptionUpdate)) k = Some new \<and>
         (\<forall>k'. k' \<noteq> k \<longrightarrow>
            getPrescription (snd (updatePrescription st k prescriptionUpdate)) k'
              = getPrescription st k'))) \<and>
    (getPrescription st k = None \<longrightarrow> updatePrescription st k prescriptionUpdate = (None, st))) \<and>
   ((getDoctorSchedule st k = Some schedule \<longrightarrow>
      (\<exists>new. merged_schedule schedule scheduleUpdate new \<and>
         updateDoctorSchedule st k scheduleUpdate
           = (Some new, st\<lparr>doctorSchedules := Map_set (doctorSchedules st) k new\<rparr>) \<and>
         getDoctorSchedule (snd (updateDoctorSchedule st k scheduleUpdate)) k = Some new \<and>
         (\<forall>k'. k' \<noteq> k \<longrightarrow>
            getDoctorSchedule (snd (updateDoctorSchedule st k scheduleUpdate)) k'
              = getDoctorSchedule st k'))) \<and>
    (getDoctorSchedule st k = None \<longrightarrow> updateDoctorSchedule st k scheduleUpdate = (None, st)))"
  by (intro conjI updateAppointment_spec [THEN conjunct1] updateAppointment_spec [THEN conjunct2]
      updateBed_spec [THEN conjunct1] updateBed_spec [THEN conjunct2]
      updatePrescription_spec [THEN conjunct1] updatePrescription_spec [THEN conjunct2]
      updateDoctorSchedule_spec [THEN conjunct1] updateDoctorSchedule_spec [THEN conjunct2])

lemma store_with_records_lookups:
  "getAppointment store_with_records 1 = Some (stored_appointment 1 2 1 1710498600000)"
  "getPrescription store_with_records 1 = Some (stored_prescription 1 2 1)"
  "getDoctorSchedule store_with_records 1 = Some (stored_slot 1 1 ''monday'')"
  "getAppointment store_with_records 99 = None"
  "getPrescription store_with_records 99 = None"
  "getDoctorSchedule store_with_records 99 = None"
  by (simp_all add: getAppointment_def getPrescription_def getDoctorSchedule_def
      store_with_records_contents)

lemma store_with_records_beds:
  "getBed store_with_records 1 = Some bed_I01"
  "getBed store_with_records 99 = None"
  by (simp_all add: getBed_def store_with_records_def createUser_def createAppointment_def
      createPrescription_def createDoctorSchedule_def Let_def bed_I01_def
      new_MemStorage_def initializeData_def initializeData_loop.simps createBed_def
      wards_def toUpperCase_def toUpperCase_char_def charAt_def padStart_def toString.simps)

theorem C6_update_merges_or_not_found_witness:
  "getAppointment store_with_records 1 = Some (stored_appointment 1 2 1 1710498600000) \<and>
   fst (updateAppointment store_with_records 1
          (no_appointment_fields\<lparr>pa_status := Some ''cancelled'', pa_notes := Some (Some ''moved'')\<rparr>))
     = Some ((stored_appointment 1 2 1 1710498600000)
               \<lparr>a_status := ''cancelled'', a_notes := Some ''moved''\<rparr>) \<and>
   getBed store_with_records 1 = Some bed_I01 \<and>
   fst (updateBed store_with_records 1
          (no_bed_fields\<lparr>pb_status := Some ''occupied'', pb_patientId := Some (Some 2)\<rparr>))
     = Some (bed_I01\<lparr>b_status := ''occupied'', b_patientId := Some 2\<rparr>) \<and>
   getPrescription store_with_records 1 = Some (stored_prescription 1 2 1) \<and>
   fst (updatePrescription store_with_records 1
          (no_prescription_fields\<lparr>pp_status := Some ''completed'', pp_notes := Some None\<rparr>))
     = Some ((stored_prescription 1 2 1)\<lparr>p_status := ''completed'', p_notes := None\<rparr>) \<and>
   getDoctorSchedule store_with_records 1 = Some (stored_slot 1 1 ''monday'') \<and>
   fst (updateDoctorSchedule store_with_records 1
          (no_schedule_fields\<lparr>ps_day := Some ''friday''\<rparr>))
     = Some (stored_slot 1 1 ''friday'') \<and>
   getAppointment store_with_records 99 = None \<and>
   updateAppointment store_with_records 99 no_appointment_fields = (None, store_with_records) \<and>
   getBed store_with_records 99 = None \<and>
   updateBed store_with_records 99 no_bed_fields = (None, store_with_records) \<and>
   getPrescription store_with_records 99 = None \<and>
   updatePrescription store_with_records 99 no_prescription_fields = (None, store_with_records) \<and>
   getDoctorSchedule store_with_records 99 = None \<and>
   updateDoctorSchedule store_with_records 99 no_schedule_fields = (None, store_with_records)"
proof -
  note found =
    C6_update_merges_or_not_found
      [where st = store_with_records and k = 1
         and appointment = "stored_appointment 1 2 1 1710498600000"
         and appointmentUpdate =
           "no_appointment_fields\<lparr>pa_status := Some ''cancelled'', pa_notes := Some (Some ''moved'')\<rparr>"
         and bed = bed_I01
         and bedUpdate = "no_bed_fields\<lparr>pb_status := Some ''occupied'', pb_patientId := Some (Some 2)\<rparr>"
         and prescription = "stored_prescription 1 2 1"
         and prescriptionUpdate =
           "no_prescription_fields\<lparr>pp_status := Some ''completed'', pp_notes := Some None\<rparr>"
         and schedule = "stored_slot 1 1 ''monday''"
         and scheduleUpdate = "no_schedule_fields\<lparr>ps_day := Some ''friday''\<rparr>"]
  note missing =
    C6_update_merges_or_not_found
      [where st = store_with_records and k = 99
         and appointmentUpdate = no_appointment_fields and bedUpdate = no_bed_fields
         and prescriptionUpdate = no_prescription_fields
         and scheduleUpdate = no_schedule_fields]
  show ?thesis
    using found missing
    by (simp add: store_with_records_lookups store_with_records_beds
        merged_appointment_spread merged_bed_spread merged_prescription_spread
        merged_schedule_spread)
       (simp add: spreadAppointment_def spreadBed_def spreadPrescription_def
        spreadDoctorSchedule_def spread_def no_appointment_fields_def no_bed_fields_def
        no_prescription_fields_def no_schedule_fields_def stored_appointment_def bed_I01_def
        stored_prescription_def stored_slot_def)
qed

section \<open>Create, then get\<close>

lemma createUser_get:
  "getUser (snd (createUser st x)) (u_id (fst (createUser st x))) = Some (fst (createUser st x)) \<and>
   u_id (fst (createUser st x)) = userIdCounter st \<and>
   keeps_user_fields x (fst (createUser st x))"
  by (simp add: createUser_def getUser_def Let_def Map_get_Map_set_same keeps_user_fields_def)

lemma createAppointment_get:
  "getAppointment (snd (createAppointment st x)) (a_id (fst (createAppointment st x)))
     = Some (fst (createAppointment st x)) \<and>
   a_id (fst (createAppointment st x)) = appointmentIdCounter st \<and>
   keeps_appointment_fields x (fst (createAppointment st x))"
  by (simp add: createAppointment_def getAppointment_def Let_def Map_get_Map_set_same
      keeps_appointment_fields_def new_Date_def)

lemma createBed_get:
  "getBed (snd (createBed st x)) (b_id (fst (createBed st x))) = Some (fst (createBed st x)) \<and>
   b_id (fst (createBed st x)) = bedIdCounter st \<and>
   keeps_bed_fields x (fst (createBed st x))"
  by (simp add: createBed_def getBed_def Let_def Map_get_Map_set_same keeps_bed_fields_def)

lemma createPrescription_get:
  "getPrescription (snd (createPrescription st x)) (p_id (fst (createPrescription st x)))
     = Some (fst (createPrescription st x)) \<and>
   p_id (fst (createPrescription st x)) = prescriptionIdCounter st \<and>
   keeps_prescription_fields x (fst (createPrescription st x))"
  by (simp add: createPrescription_def getPrescription_def Let_def Map_get_Map_set_same
      keeps_prescription_fields_def new_Date_def)

lemma createDoctorSchedule_get:
  "getDoctorSchedule (snd (createDoctorSchedule st x)) (s_id (fst (createDoctorSchedule st x)))
     = Some (fst (createDoctorSchedule st x)) \<and>
   s_id (fst (createDoctorSchedule st x)) = scheduleIdCounter st \<and>
   keeps_schedule_fields x (fst (createDoctorSchedule st x))"
  by (simp add: createDoctorSchedule_def getDoctorSchedule_def Let_def Map_get_Map_set_same
      keeps_schedule_fields_def)

text \<open>
  C7. For users, appointments, beds, prescriptions and schedules, for every store and
  every insert payload \<open>x\<close>: \<open>create\<close> returns a record \<open>r\<close> whose id is the value of the
  collection's counter, and \<open>get\<close> of that id on the store that \<open>create\<close> leaves returns
  \<open>r\<close>, which has every field of \<open>x\<close> with the submitted value, plus the assigned id.
\<close>

theorem C7_create_then_get:
  "(getUser (snd (createUser st insertUser)) (u_id (fst (createUser st insertUser)))
      = Some (fst (createUser st insertUser)) \<and>
    u_id (fst (createUser st insertUser)) = userIdCounter st \<and>
    keeps_user_fields insertUser (fst (createUser st insertUser))) \<and>
   (getAppointment (snd (createAppointment st insertAppointment))
        (a_id (fst (createAppointment st insertAppointment)))
      = Some (fst (createAppointment st insertAppointment)) \<and>
    a_id (fst (createAppointment st insertAppointment)) = appointmentIdCounter st \<and>
    keeps_appointment_fields insertAppointment (fst (createAppointment st insertAppointment))) \<and>
   (getBed (snd (createBed st insertBed)) (b_id (fst (createBed st insertBed)))
      = Some (fst (createBed st insertBed)) \<and>
    b_id (fst (createBed st insertBed)) = bedIdCounter st \<and>
    keeps_bed_fields insertBed (fst (createBed st insertBed))) \<and>
   (getPrescription (snd (createPrescription st insertPrescription))
        (p_id (fst (createPrescription st insertPrescription)))
      = Some (fst (createPrescription st insertPrescription)) \<and>
    p_id (fst (createPrescription st insertPrescription)) = prescriptionIdCounter st \<and>
    keeps_prescription_fields insertPrescription (fst (createPrescription st insertPrescription))) \<and>
   (getDoctorSchedule (snd (createDoctorSchedule st insertSchedule))
        (s_id (fst (createDoctorSchedule st insertSchedule)))
      = Some (fst (createDoctorSchedule st insertSchedule)) \<and>
    s_id (fst (createDoctorSchedule st insertSchedule)) = scheduleIdCounter st \<and>
    keeps_schedule_fields insertSchedule (fst (createDoctorSchedule st insertSchedule)))"
  by (intro conjI createUser_get [THEN conjunct1] createUser_get [THEN conjunct2, THEN conjunct1]
      createUser_get [THEN conjunct2, THEN conjunct2]
      createAppointment_get [THEN conjunct1] createAppointment_get [THEN conjunct2, THEN conjunct1]
      createAppointment_get [THEN conjunct2, THEN conjunct2]
      createBed_get [THEN conjunct1] createBed_get [THEN conjunct2, THEN conjunct1]
      createBed_get [THEN conjunct2, THEN conjunct2]
      createPrescription_get [THEN conjunct1]
      createPrescription_get [THEN conjunct2, THEN conjunct1]
      createPrescription_get [THEN conjunct2, THEN conjunct2]
      createDoctorSchedule_get [THEN conjunct1]
      createDoctorSchedule_get [THEN conjunct2, THEN conjunct1]
      createDoctorSchedule_get [THEN conjunct2, THEN conjunct2])

theorem C7_create_then_get_witness:
  "getUser (snd (createUser store_with_records insert_doctorA)) 4
     = Some (doctor1\<lparr>u_id := 4\<rparr>) \<and>
   getAppointment (snd (createAppointment store_with_records (appointment_at 2 3 1710583200000))) 4
     = Some (stored_appointment 4 2 3 1710583200000) \<and>
   getPrescription (snd (createPrescription store_with_records (prescription_for 2 3))) 3
     = Some (stored_prescription 3 2 3) \<and>
   getDoctorSchedule (snd (createDoctorSchedule store_with_records (slot 3 ''friday''))) 2
     = Some (stored_slot 2 3 ''friday'')"
proof -
  note c =
    C7_create_then_get
      [where st = store_with_records and insertUser = insert_doctorA
         and insertAppointment = "appointment_at 2 3 1710583200000"
         and insertPrescription = "prescription_for 2 3"
         and insertSchedule = "slot 3 ''friday''"]
  have u: "fst (createUser store_with_records insert_doctorA) = doctor1\<lparr>u_id := 4\<rparr>"
    by (simp add: createUser_def Let_def store_with_records_contents insert_doctorA_def doctor1_def)
  have a: "fst (createAppointment store_with_records (appointment_at 2 3 1710583200000))
      = stored_appointment 4 2 3 1710583200000"
    by (simp add: createAppointment_def Let_def store_with_records_contents appointment_at_def
        stored_appointment_def new_Date_def)
  have p: "fst (createPrescription store_with_records (prescription_for 2 3))
      = stored_prescription 3 2 3"
    by (simp add: createPrescription_def Let_def store_with_records_contents prescription_for_def
        stored_prescription_def new_Date_def)
  have s: "fst (createDoctorSchedule store_with_records (slot 3 ''friday''))
      = stored_slot 2 3 ''friday''"
    by (simp add: createDoctorSchedule_def Let_def store_with_records_contents slot_def
        stored_slot_def)
  show ?thesis
    using c unfolding u a p s
    by (simp add: store_with_records_contents stored_appointment_def stored_prescription_def
        stored_slot_def)
qed

section \<open>Passwords in the user lists\<close>

lemma getUsersByRole_replace_passwords:
  "map rest_without_password (getUsersByRole (replace_passwords f st) role)
     = map rest_without_password (getUsersByRole st role)"
proof -
  have "map rest_without_password
          (filter (\<lambda>user. u_role user = role)
             (map snd (map (\<lambda>e. (fst e, (snd e)\<lparr>u_password := f (snd e)\<rparr>)) m)))
        = map rest_without_password (filter (\<lambda>user. u_role user = role) (map snd m))"
    for m :: "User jsmap"
    by (induction m) (simp_all add: rest_without_password_def)
  then show ?thesis
    by (simp add: getUsersByRole_def replace_passwords_def Map_values_def)
qed

lemma get_users_doctors_authenticated:
  "get_users_doctors st (Some user)
     = (Json 200 (map rest_without_password (getUsersByRole st ''doctor'')), st)"
  by (simp add: get_users_doctors_def ensureAuthenticated_def)

lemma get_users_patients_authenticated:
  "get_users_patients st (Some user)
     = (if u_role user = ''doctor'' \<or> u_role user = ''nurse'' then
          (Json 200 (map rest_without_password (getUsersByRole st ''patient'')), st)
        else (Message 403 ''Forbidden'', st))"
  by (simp add: get_users_patients_def ensureAuthenticated_def checkRole_def)

text \<open>
  C9. For every store and every authenticated caller, \<open>GET /api/users/doctors\<close> answers
  200 with one object per stored user of role \<open>doctor\<close>, in the order of the store, and
  \<open>GET /api/users/patients\<close> does the same for role \<open>patient\<close> when the caller is a doctor
  or a nurse, and answers 403 without any user object otherwise. Each object is the rest
  of the user record without \<open>password\<close>: it has no password field (the type \<open>UserRest\<close>
  has none), and each of its eight fields has the value of the stored record. The
  responses do not depend on any password: replacing every stored password, and the
  caller's, by anything leaves both responses the same.
\<close>

theorem C9_user_lists_without_passwords:
  "get_users_doctors st (Some user)
     = (Json 200 (map rest_without_password (getUsersByRole st ''doctor'')), st) \<and>
   get_users_patients st (Some user)
     = (if u_role user = ''doctor'' \<or> u_role user = ''nurse'' then
          (Json 200 (map rest_without_password (getUsersByRole st ''patient'')), st)
        else (Message 403 ''Forbidden'', st)) \<and>
   (r_id (rest_without_password u) = u_id u \<and>
    r_username (rest_without_password u) = u_username u \<and>
    r_email (rest_without_password u) = u_email u \<and>
    r_fullName (rest_without_password u) = u_fullName u \<and>
    r_role (rest_without_password u) = u_role u \<and>
    r_specialization (rest_without_password u) = u_specialization u \<and>
    r_contactNumber (rest_without_password u) = u_contactNumber u \<and>
    r_address (rest_without_password u) = u_address u) \<and>
   fst (get_users_doctors (replace_passwords f st) (Some (user\<lparr>u_password := pw\<rparr>)))
     = fst (get_users_doctors st (Some user)) \<and>
   fst (get_users_patients (replace_passwords f st) (Some (user\<lparr>u_password := pw\<rparr>)))
     = fst (get_users_patients st (Some user))"
proof (intro conjI)
  show "get_users_doctors st (Some user)
     = (Json 200 (map rest_without_password (getUsersByRole st ''doctor'')), st)"
    by (rule get_users_doctors_authenticated)
  show "get_users_patients st (Some user)
     = (if u_role user = ''doctor'' \<or> u_role user = ''nurse'' then
          (Json 200 (map rest_without_password (getUsersByRole st ''patient'')), st)
        else (Message 403 ''Forbidden'', st))"
    by (rule get_users_patients_authenticated)
  show "fst (get_users_doctors (replace_passwords f st) (Some (user\<lparr>u_password := pw\<rparr>)))
     = fst (get_users_doctors st (Some user))"
    by (simp add: get_users_doctors_authenticated getUsersByRole_replace_passwords)
  show "fst (get_users_patients (replace_passwords f st) (Some (user\<lparr>u_password := pw\<rparr>)))
     = fst (get_users_patients st (Some user))"
    by (simp add: get_users_patients_authenticated getUsersByRole_replace_passwords)
qed (simp_all add: rest_without_password_def)

theorem C9_user_lists_without_passwords_witness:
  "get_users_doctors store_with_records (Some patient1)
     = (Json 200
          [\<lparr>r_id = 1, r_username = ''drgrey'', r_email = ''grey@example.org'',
            r_fullName = ''M. Grey'', r_role = ''doctor'', r_specialization = Some ''surgery'',
            r_contactNumber = None, r_address = None\<rparr>,
           \<lparr>r_id = 3, r_username = ''drhouse'', r_email = ''house@example.org'',
            r_fullName = ''G. House'', r_role = ''doctor'', r_specialization = None,
            r_contactNumber = None, r_address = None\<rparr>],
        store_with_records) \<and>
   get_users_patients store_with_records (Some nurse1)
     = (Json 200
          [\<lparr>r_id = 2, r_username = ''pat'', r_email = ''pat@example.org'',
            r_fullName = ''P. Doe'', r_role = ''patient'', r_specialization = None,
            r_contactNumber = Some ''555-0100'', r_address = None\<rparr>],
        store_with_records) \<and>
   get_users_patients store_with_records (Some patient1)
     = (Message 403 ''Forbidden'', store_with_records)"
proof -
  have d: "map rest_without_password (getUsersByRole store_with_records ''doctor'')
      = [\<lparr>r_id = 1, r_username = ''drgrey'', r_email = ''grey@example.org'',
            r_fullName = ''M. Grey'', r_role = ''doctor'', r_specialization = Some ''surgery'',
            r_contactNumber = None, r_address = None\<rparr>,
           \<lparr>r_id = 3, r_username = ''drhouse'', r_email = ''house@example.org'',
            r_fullName = ''G. House'', r_role = ''doctor'', r_specialization = None,
            r_contactNumber = None, r_address = None\<rparr>]"
    by (simp add: getUsersByRole_def Map_values_def store_with_records_contents createUser_def
        Let_def insert_doctorA_def insert_patientB_def insert_doctorC_def
        rest_without_password_def)
  have p: "map rest_without_password (getUsersByRole store_with_records ''patient'')
      = [\<lparr>r_id = 2, r_username = ''pat'', r_email = ''pat@example.org'',
            r_fullName = ''P. Doe'', r_role = ''patient'', r_specialization = None,
            r_contactNumber = Some ''555-0100'', r_address = None\<rparr>]"
    by (simp add: getUsersByRole_def Map_values_def store_with_records_contents createUser_def
        Let_def insert_doctorA_def insert_patientB_def insert_doctorC_def
        rest_without_password_def)
  show ?thesis
    using C9_user_lists_without_passwords [where st = store_with_records and user = patient1]
      C9_user_lists_without_passwords [where st = store_with_records and user = nurse1]
    unfolding d p
    by (simp add: patient1_def nurse1_def)
qed

section \<open>The id of an updated record\<close>

lemma ids_agree_Map_get:
  "ids_agree id_of m \<Longrightarrow> Map_get m k = Some v \<Longrightarrow> id_of v = k"
  by (induction m) (auto simp: ids_agree_def split: if_splits)

lemma ids_agree_Map_set:
  "ids_agree id_of m \<Longrightarrow> id_of v = k \<Longrightarrow> ids_agree id_of (Map_set m k v)"
  by (induction m) (auto simp: ids_agree_def)

lemma spread_None: "spread old None = old"
  by (simp add: spread_def)

lemma spread_Some: "spread old (Some v) = v"
  by (simp add: spread_def)

lemma updateAppointment_id:
  "(ids_agree a_id (appointments st) \<and> pa_id payload = None \<longrightarrow>
      ids_agree a_id (appointments (snd (updateAppointment st k payload)))) \<and>
   (getAppointment st k = Some old \<and> pa_id payload = None \<longrightarrow>
      (\<exists>new. getAppointment (snd (updateAppointment st k payload)) k = Some new \<and> a_id new = a_id old)) \<and>
   (getAppointment st k = Some old \<and> pa_id payload = Some n \<longrightarrow>
      (\<exists>new. getAppointment (snd (updateAppointment st k payload)) k = Some new \<and> a_id new = n))"
proof (intro conjI impI)
  assume a: "ids_agree a_id (appointments st) \<and> pa_id payload = None"
  show "ids_agree a_id (appointments (snd (updateAppointment st k payload)))"
  proof (cases "getAppointment st k")
    case None
    then show ?thesis using a by (simp add: updateAppointment_cases)
  next
    case (Some old)
    with a have "a_id old = k"
      by (auto simp: getAppointment_def dest: ids_agree_Map_get)
    with a have "a_id (spreadAppointment old payload) = k"
      by (simp add: spreadAppointment_def spread_None)
    with a Some show ?thesis
      by (simp add: updateAppointment_cases ids_agree_Map_set)
  qed
next
  assume "getAppointment st k = Some old \<and> pa_id payload = None"
  then show "\<exists>new. getAppointment (snd (updateAppointment st k payload)) k = Some new \<and> a_id new = a_id old"
    by (simp add: updateAppointment_cases getAppointment_def Map_get_Map_set_same spreadAppointment_def spread_None)
next
  assume "getAppointment st k = Some old \<and> pa_id payload = Some n"
  then show "\<exists>new. getAppointment (snd (updateAppointment st k payload)) k = Some new \<and> a_id new = n"
    by (simp add: updateAppointment_cases getAppointment_def Map_get_Map_set_same spreadAppointment_def spread_Some)
qed

lemma updateBed_id:
  "(ids_agree b_id (beds st) \<and> pb_id payload = None \<longrightarrow>
      ids_agree b_id (beds (snd (updateBed st k payload)))) \<and>
   (getBed st k = Some old \<and> pb_id payload = None \<longrightarrow>
      (\<exists>new. getBed (snd (updateBed st k payload)) k = Some new \<and> b_id new = b_id old)) \<and>
   (getBed st k = Some old \<and> pb_id payload = Some n \<longrightarrow>
      (\<exists>new. getBed (snd (updateBed st k payload)) k = Some new \<and> b_id new = n))"
proof (intro conjI impI)
  assume a: "ids_agree b_id (beds st) \<and> pb_id payload = None"
  show "ids_agree b_id (beds (snd (updateBed st k payload)))"
  proof (cases "getBed st k")
    case None
    then show ?thesis using a by (simp add: updateBed_cases)
  next
    case (Some old)
    with a have "b_id old = k"
      by (auto simp: getBed_def dest: ids_agree_Map_get)
    with a have "b_id (spreadBed old payload) = k"
      by (simp add: spreadBed_def spread_None)
    with a Some show ?thesis
      by (simp add: updateBed_cases ids_agree_Map_set)
  qed
next
  assume "getBed st k = Some old \<and> pb_id payload = None"
  then show "\<exists>new. getBed (snd (updateBed st k payload)) k = Some new \<and> b_id new = b_id old"
    by (simp add: updateBed_cases getBed_def Map_get_Map_set_same spreadBed_def spread_None)
next
  assume "getBed st k = Some old \<and> pb_id payload = Some n"
  then show "\<exists>new. getBed (snd (updateBed st k payload)) k = Some new \<and> b_id new = n"
    by (simp add: updateBed_cases getBed_def Map_get_Map_set_same spreadBed_def spread_Some)
qed

lemma updatePrescription_id:
  "(ids_agree p_id (prescriptions st) \<and> pp_id payload = None \<longrightarrow>
      ids_agree p_id (prescriptions (snd (updatePrescription st k payload)))) \<and>
   (getPrescription st k = Some old \<and> pp_id payload = None \<longrightarrow>
      (\<exists>new. getPrescription (snd (updatePrescription st k payload)) k = Some new \<and> p_id new = p_id old)) \<and>
   (getPrescription st k = Some old \<and> pp_id payload = Some n \<longrightarrow>
      (\<exists>new. getPrescription (snd (updatePrescription st k payload)) k = Some new \<and> p_id new = n))"
proof (intro conjI impI)
  assume a: "ids_agree p_id (prescriptions st) \<and> pp_id payload = None"
  show "ids_agree p_id (prescriptions (snd (updatePrescription st k payload)))"
  proof (cases "getPrescription st k")
    case None
    then show ?thesis using a by (simp add: updatePrescription_cases)
  next
    case (Some old)
    with a have "p_id old = k"
      by (auto simp: getPrescription_def dest: ids_agree_Map_get)
    with a have "p_id (spreadPrescription old payload) = k"
      by (simp add: spreadPrescription_def spread_None)
    with a Some show ?thesis
      by (simp add: updatePrescription_cases ids_agree_Map_set)
  qed
next
  assume "getPrescription st k = Some old \<and> pp_id payload = None"
  then show "\<exists>new. getPrescription (snd (updatePrescription st k payload)) k = Some new \<and> p_id new = p_id old"
    by (simp add: updatePrescription_cases getPrescription_def Map_get_Map_set_same spreadPrescription_def spread_None)
next
  assume "getPrescription st k = Some old \<and> pp_id payload = Some n"
  then show "\<exists>new. getPrescription (snd (updatePrescription st k payload)) k = Some new \<and> p_id new = n"
    by (simp add: updatePrescription_cases getPrescription_def Map_get_Map_set_same spreadPrescription_def spread_Some)
qed

lemma updateDoctorSchedule_id:
  "(ids_agree s_id (doctorSchedules st) \<and> ps_id payload = None \<longrightarrow>
      ids_agree s_id (doctorSchedules (snd (updateDoctorSchedule st k payload)))) \<and>
   (getDoctorSchedule st k = Some old \<and> ps_id payload = None \<longrightarrow>
      (\<exists>new. getDoctorSchedule (snd (updateDoctorSchedule st k payload)) k = Some new \<and> s_id new = s_id old)) \<and>
   (getDoctorSchedule st k = Some old \<and> ps_id payload = Some n \<longrightarrow>
      (\<exists>new. getDoctorSchedule (snd (updateDoctorSchedule st k payload)) k = Some new \<and> s_id new = n))"
proof (intro conjI impI)
  assume a: "ids_agree s_id (doctorSchedules st) \<and> ps_id payload = None"
  show "ids_agree s_id (doctorSchedules (snd (updateDoctorSchedule st k payload)))"
  proof (cases "getDoctorSchedule st k")
    case None
    then show ?thesis using a by (simp add: updateDoctorSchedule_cases)
  next
    case (Some old)
    with a have "s_id old = k"
      by (auto simp: getDoctorSchedule_def dest: ids_agree_Map_get)
    with a have "s_id (spreadDoctorSchedule old payload) = k"
      by (simp add: spreadDoctorSchedule_def spread_None)
    with a Some show ?thesis
      by (simp add: updateDoctorSchedule_cases ids_agree_Map_set)
  qed
next
  assume "getDoctorSchedule st k = Some old \<and> ps_id payload = None"
  then show "\<exists>new. getDoctorSchedule (snd (updateDoctorSchedule st k payload)) k = Some new \<and> s_id new = s_id old"
    by (simp add: updateDoctorSchedule_cases getDoctorSchedule_def Map_get_Map_set_same spreadDoctorSchedule_def spread_None)
next
  assume "getDoctorSchedule st k = Some old \<and> ps_id payload = Some n"
  then show "\<exists>new. getDoctorSchedule (snd (updateDoctorSchedule st k payload)) k = Some new \<and> s_id new = n"
    by (simp add: updateDoctorSchedule_cases getDoctorSchedule_def Map_get_Map_set_same spreadDoctorSchedule_def spread_Some)
qed

lemma put_appointments_allowed:
  "getAppointment st k = Some appointment \<and>
   \<not> (u_role user = ''patient'' \<and> a_patientId appointment \<noteq> u_id user) \<longrightarrow>
   put_appointments st (Some user) k body
     = (Json 200 (fst (updateAppointment st k body)), snd (updateAppointment st k body))"
  by (auto simp: put_appointments_def ensureAuthenticated_def split: prod.split)

lemma put_beds_allowed:
  "getBed st k = Some bed \<and> (u_role user = ''doctor'' \<or> u_role user = ''nurse'') \<longrightarrow>
   put_beds st (Some user) k body
     = (Json 200 (fst (updateBed st k body)), snd (updateBed st k body))"
  by (auto simp: put_beds_def ensureAuthenticated_def checkRole_def split: prod.split)

text \<open>
  C10. For appointments, beds, prescriptions and schedules: if in a collection every
  record is stored under its own id and the partial payload has no \<open>id\<close> field, then
  after \<open>update(k, payload)\<close> every record of the collection is still stored under its own
  id, and the record stored under \<open>k\<close> keeps the id it had. If the payload has an \<open>id\<close> field with value \<open>n\<close> and a record is stored under \<open>k\<close>,
  the record stored under \<open>k\<close> afterwards has id \<open>n\<close>, whatever \<open>k\<close> is: the store does not
  keep the id. The routes \<open>PUT /api/appointments/k\<close> and \<open>PUT /api/beds/k\<close> hand the request
  body to the update as it is, so a body with an \<open>id\<close> field reaches the store.
\<close>

theorem C10_update_keeps_id_without_id_field:
  "((ids_agree a_id (appointments st) \<and> pa_id appointmentUpdate = None \<longrightarrow>
       ids_agree a_id (appointments (snd (updateAppointment st k appointmentUpdate)))) \<and>
    (getAppointment st k = Some appointment \<and> pa_id appointmentUpdate = None \<longrightarrow>
       (\<exists>new. getAppointment (snd (updateAppointment st k appointmentUpdate)) k = Some new \<and>
          a_id new = a_id appointment)) \<and>
    (getAppointment st k = Some appointment \<and> pa_id appointmentUpdate = Some n \<longrightarrow>
       (\<exists>new. getAppointment (snd (updateAppointment st k appointmentUpdate)) k = Some new \<and>
          a_id new = n))) \<and>
   ((ids_agree b_id (beds st) \<and> pb_id bedUpdate = None \<longrightarrow>
       ids_agree b_id (beds (snd (updateBed st k bedUpdate)))) \<and>
    (getBed st k = Some bed \<and> pb_id bedUpdate = None \<longrightarrow>
       (\<exists>new. getBed (snd (updateBed st k bedUpdate)) k = Some new \<and>
          b_id new = b_id bed)) \<and>
    (getBed st k = Some bed \<and> pb_id bedUpdate = Some n \<longrightarrow>
       (\<exists>new. getBed (snd (updateBed st k bedUpdate)) k = Some new \<and>
          b_id new = n))) \<and>
   ((ids_agree p_id (prescriptions st) \<and> pp_id prescriptionUpdate = None \<longrightarrow>
       ids_agree p_id (prescriptions (snd (updatePrescription st k prescriptionUpdate)))) \<and>
    (getPrescription st k = Some prescription \<and> pp_id prescriptionUpdate = None \<longrightarrow>
       (\<exists>new. getPrescription (snd (updatePrescription st k prescriptionUpdate)) k = Some new \<and>
          p_id new = p_id prescription)) \<and>
    (getPrescription st k = Some prescription \<and> pp_id prescriptionUpdate = Some n \<longrightarrow>
       (\<exists>new. getPrescription (snd (updatePrescription st k prescriptionUpdate)) k = Some new \<and>
          p_id new = n))) \<and>
   ((ids_agree s_id (doctorSchedules st) \<and> ps_id scheduleUpdate = None \<longrightarrow>
       ids_agree s_id (doctorSchedules (snd (updateDoctorSchedule st k scheduleUpdate)))) \<and>
    (getDoctorSchedule st k = Some schedule \<and> ps_id scheduleUpdate = None \<longrightarrow>
       (\<exists>new. getDoctorSchedule (snd (updateDoctorSchedule st k scheduleUpdate)) k = Some new \<and>
          s_id new = s_id schedule)) \<and>
    (getDoctorSchedule st k = Some schedule \<and> ps_id scheduleUpdate = Some n \<longrightarrow>
       (\<exists>new. getDoctorSchedule (snd (updateDoctorSchedule st k scheduleUpdate)) k = Some new \<and>
          s_id new = n))) \<and>
   (getAppointment st k = Some appointment \<and>
    \<not> (u_role user = ''patient'' \<and> a_patientId appointment \<noteq> u_id user) \<longrightarrow>
      put_appointments st (Some user) k appointmentUpdate
        = (Json 200 (fst (updateAppointment st k appointmentUpdate)),
           snd (updateAppointment st k appointmentUpdate))) \<and>
   (getBed st k = Some bed \<and> (u_role user = ''doctor'' \<or> u_role user = ''nurse'') \<longrightarrow>
      put_beds st (Some user) k bedUpdate
        = (Json 200 (fst (updateBed st k bedUpdate)), snd (updateBed st k bedUpdate)))"
  by (intro conjI
      updateAppointment_id [THEN conjunct1] updateAppointment_id [THEN conjunct2, THEN conjunct1]
      updateAppointment_id [THEN conjunct2, THEN conjunct2]
      updateBed_id [THEN conjunct1] updateBed_id [THEN conjunct2, THEN conjunct1]
      updateBed_id [THEN conjunct2, THEN conjunct2]
      updatePrescription_id [THEN conjunct1] updatePrescription_id [THEN conjunct2, THEN conjunct1]
      updatePrescription_id [THEN conjunct2, THEN conjunct2]
      updateDoctorSchedule_id [THEN conjunct1] updateDoctorSchedule_id [THEN conjunct2, THEN conjunct1]
      updateDoctorSchedule_id [THEN conjunct2, THEN conjunct2]
      put_appointments_allowed put_beds_allowed)

lemma store_with_records_ids_agree:
  "ids_agree a_id (appointments store_with_records)"
  "ids_agree p_id (prescriptions store_with_records)"
  "ids_agree s_id (doctorSchedules store_with_records)"
  by (simp_all add: ids_agree_def store_with_records_contents stored_appointment_def
      stored_prescription_def stored_slot_def)

lemma store_with_records_beds_agree:
  "ids_agree b_id (beds store_with_records)"
  by (simp add: ids_agree_def store_with_records_def createUser_def createAppointment_def
      createPrescription_def createDoctorSchedule_def Let_def
      new_MemStorage_def initializeData_def initializeData_loop.simps createBed_def
      wards_def toUpperCase_def toUpperCase_char_def charAt_def padStart_def toString.simps)

theorem C10_update_keeps_id_without_id_field_witness:
  "ids_agree a_id (appointments store_with_records) \<and>
   pa_id (no_appointment_fields\<lparr>pa_status := Some ''cancelled''\<rparr>) = None \<and>
   ids_agree a_id (appointments (snd (updateAppointment store_with_records 1
      (no_appointment_fields\<lparr>pa_status := Some ''cancelled''\<rparr>)))) \<and>
   ids_agree b_id (beds store_with_records) \<and>
   ids_agree b_id (beds (snd (updateBed store_with_records 1
      (no_bed_fields\<lparr>pb_status := Some ''occupied''\<rparr>)))) \<and>
   ids_agree p_id (prescriptions store_with_records) \<and>
   ids_agree p_id (prescriptions (snd (updatePrescription store_with_records 1
      (no_prescription_fields\<lparr>pp_status := Some ''completed''\<rparr>)))) \<and>
   ids_agree s_id (doctorSchedules store_with_records) \<and>
   ids_agree s_id (doctorSchedules (snd (updateDoctorSchedule store_with_records 1
      (no_schedule_fields\<lparr>ps_day := Some ''friday''\<rparr>)))) \<and>
   getAppointment store_with_records 1 = Some (stored_appointment 1 2 1 1710498600000) \<and>
   u_role nurse1 = ''nurse'' \<and>
   fst (put_appointments store_with_records (Some nurse1) 1 (no_appointment_fields\<lparr>pa_id := Some 42\<rparr>))
     = Json 200 (Some (stored_appointment 42 2 1 1710498600000)) \<and>
   getAppointment
       (snd (put_appointments store_with_records (Some nurse1) 1
               (no_appointment_fields\<lparr>pa_id := Some 42\<rparr>))) 1
     = Some (stored_appointment 42 2 1 1710498600000) \<and>
   getBed store_with_records 1 = Some bed_I01 \<and>
   getBed (snd (put_beds store_with_records (Some nurse1) 1 (no_bed_fields\<lparr>pb_id := Some 42\<rparr>))) 1
     = Some (bed_I01\<lparr>b_id := 42\<rparr>)"
proof -
  let ?st = store_with_records
  let ?pa = "no_appointment_fields\<lparr>pa_status := Some ''cancelled''\<rparr>"
  let ?pb = "no_bed_fields\<lparr>pb_status := Some ''occupied''\<rparr>"
  let ?pp = "no_prescription_fields\<lparr>pp_status := Some ''completed''\<rparr>"
  let ?ps = "no_schedule_fields\<lparr>ps_day := Some ''friday''\<rparr>"
  let ?pa42 = "no_appointment_fields\<lparr>pa_id := Some 42\<rparr>"
  let ?pb42 = "no_bed_fields\<lparr>pb_id := Some 42\<rparr>"
  note keep =
    C10_update_keeps_id_without_id_field
      [where st = ?st and k = 1 and appointmentUpdate = ?pa and bedUpdate = ?pb
         and prescriptionUpdate = ?pp and scheduleUpdate = ?ps]
  note break =
    C10_update_keeps_id_without_id_field
      [where st = ?st and k = 1 and user = nurse1 and n = 42
         and appointment = "stored_appointment 1 2 1 1710498600000"
         and appointmentUpdate = ?pa42 and bed = bed_I01 and bedUpdate = ?pb42]
  have absent: "pa_id ?pa = None" "pb_id ?pb = None" "pp_id ?pp = None" "ps_id ?ps = None"
    by (simp_all add: no_appointment_fields_def no_bed_fields_def no_prescription_fields_def
        no_schedule_fields_def)
  have agree: "ids_agree a_id (appointments ?st)" "ids_agree b_id (beds ?st)"
    "ids_agree p_id (prescriptions ?st)" "ids_agree s_id (doctorSchedules ?st)"
    by (rule store_with_records_ids_agree store_with_records_beds_agree)+
  have kept:
    "ids_agree a_id (appointments (snd (updateAppointment ?st 1 ?pa)))"
    "ids_agree b_id (beds (snd (updateBed ?st 1 ?pb)))"
    "ids_agree p_id (prescriptions (snd (updatePrescription ?st 1 ?pp)))"
    "ids_agree s_id (doctorSchedules (snd (updateDoctorSchedule ?st 1 ?ps)))"
    by (rule keep [THEN conjunct1, THEN conjunct1, THEN mp, OF conjI, OF agree(1) absent(1)]
        keep [THEN conjunct2, THEN conjunct1, THEN conjunct1, THEN mp, OF conjI,
          OF agree(2) absent(2)]
        keep [THEN conjunct2, THEN conjunct2, THEN conjunct1, THEN conjunct1, THEN mp, OF conjI,
          OF agree(3) absent(3)]
        keep [THEN conjunct2, THEN conjunct2, THEN conjunct2, THEN conjunct1, THEN conjunct1,
          THEN mp, OF conjI, OF agree(4) absent(4)])+
  have stored: "getAppointment ?st 1 = Some (stored_appointment 1 2 1 1710498600000)"
    "getBed ?st 1 = Some bed_I01"
    by (rule store_with_records_lookups store_with_records_beds)+
  have nurse: "u_role nurse1 = ''nurse''"
    by (simp add: nurse1_def)
  then have allowed:
    "\<not> (u_role nurse1 = ''patient'' \<and>
        a_patientId (stored_appointment 1 2 1 1710498600000) \<noteq> u_id nurse1)"
    by simp
  have put_a: "put_appointments ?st (Some nurse1) 1 ?pa42
      = (Json 200 (fst (updateAppointment ?st 1 ?pa42)), snd (updateAppointment ?st 1 ?pa42))"
    by (rule break [THEN conjunct2, THEN conjunct2, THEN conjunct2, THEN conjunct2,
          THEN conjunct1, THEN mp, OF conjI, OF stored(1) allowed])
  have put_b: "put_beds ?st (Some nurse1) 1 ?pb42
      = (Json 200 (fst (updateBed ?st 1 ?pb42)), snd (updateBed ?st 1 ?pb42))"
    by (rule break [THEN conjunct2, THEN conjunct2, THEN conjunct2, THEN conjunct2,
          THEN conjunct2, THEN mp, OF conjI, OF stored(2) disjI2, OF nurse])
  have a: "spreadAppointment (stored_appointment 1 2 1 1710498600000) ?pa42
           = stored_appointment 42 2 1 1710498600000"
    by (simp add: spreadAppointment_def spread_def no_appointment_fields_def
        stored_appointment_def)
  have b: "spreadBed bed_I01 ?pb42 = bed_I01\<lparr>b_id := 42\<rparr>"
    by (simp add: spreadBed_def spread_def no_bed_fields_def bed_I01_def)
  have upd_a: "updateAppointment ?st 1 ?pa42
      = (Some (stored_appointment 42 2 1 1710498600000),
         ?st\<lparr>appointments :=
               Map_set (appointments ?st) 1 (stored_appointment 42 2 1 1710498600000)\<rparr>)"
    by (simp only: updateAppointment_cases stored option.case a)
  have upd_b: "updateBed ?st 1 ?pb42
      = (Some (bed_I01\<lparr>b_id := 42\<rparr>),
         ?st\<lparr>beds := Map_set (beds ?st) 1 (bed_I01\<lparr>b_id := 42\<rparr>)\<rparr>)"
    by (simp only: updateBed_cases stored option.case b)
  have got_a: "getAppointment (snd (put_appointments ?st (Some nurse1) 1 ?pa42)) 1
      = Some (stored_appointment 42 2 1 1710498600000)"
    by (simp add: put_a upd_a getAppointment_def Map_get_Map_set_same)
  have got_b: "getBed (snd (put_beds ?st (Some nurse1) 1 ?pb42)) 1 = Some (bed_I01\<lparr>b_id := 42\<rparr>)"
    by (simp add: put_b upd_b getBed_def Map_get_Map_set_same)
  have res_a: "fst (put_appointments ?st (Some nurse1) 1 ?pa42)
      = Json 200 (Some (stored_appointment 42 2 1 1710498600000))"
    by (simp add: put_a upd_a)
  show ?thesis
    by (intro conjI absent(1) agree kept stored nurse res_a got_a got_b)
qed

section \<open>The appointments of one day\<close>













end
